theory Spec2Isabelle
  imports Main "HOL-Library.Word"
begin

section \<open>Data model of \<^verbatim>\<open>src/misc/image.c\<close>\<close>

text \<open>
  The file drives two kinds of host objects, a decoder and a video filter, through
  the host's object and module services.  None of these services is part of the file:
  they are parameters of the model (record \<open>host\<close> below).  The calls the file makes
  into the host, and its calls through function pointers, are logged in order in an
  event list; a host function that returns a value receives the events logged so far,
  so that its answer may depend on everything that happened before (a second
  \<^verbatim>\<open>module_Need\<close> may fail where the first succeeded, \<^verbatim>\<open>mdate\<close> moves on, and so on).
  \<^verbatim>\<open>es_format_Copy\<close> and the structure assignments are plain copies and are not logged.
  The pointers the caller passes are taken to be valid and distinct objects.
\<close>

type_synonym vlc_fourcc_t = "32 word"
type_synonym mtime_t = "64 word"
type_synonym addr = nat

text \<open>
  Modelled from the spec: the declaration of \<^verbatim>\<open>video_format_t\<close> is in a header that is
  not among the sources.  The spec's image format is pixel encoding, width, height and
  aspect ratio, with zero for an unspecified field; the file reads and writes them as
  \<^verbatim>\<open>i_chroma\<close>, \<^verbatim>\<open>i_width\<close>, \<^verbatim>\<open>i_height\<close> and \<^verbatim>\<open>i_aspect\<close>, and copies the structure
  as a whole.
\<close>

record video_format_t =
  i_chroma :: vlc_fourcc_t
  i_aspect :: "32 word"
  i_width :: "32 word"
  i_height :: "32 word"

text \<open>
  Modelled from the spec: the declaration of \<^verbatim>\<open>es_format_t\<close> and the value of
  \<^verbatim>\<open>VIDEO_ES\<close> are in a header that is not among the sources.  A negotiated format of an
  engine is its codec and its video format; the file also sets the category.  The
  category of the zeroed structure is \<open>UNKNOWN_ES\<close>.
\<close>

datatype es_cat = UNKNOWN_ES | VIDEO_ES | AUDIO_ES | SPU_ES

record es_format_t =
  i_cat :: es_cat
  i_codec :: vlc_fourcc_t
  video :: video_format_t

text \<open>\<^verbatim>\<open>static es_format_t null_es_format = {0};\<close>\<close>

definition null_es_format :: es_format_t where
  "null_es_format =
     \<lparr>i_cat = UNKNOWN_ES, i_codec = 0,
      video = \<lparr>i_chroma = 0, i_aspect = 0, i_width = 0, i_height = 0\<rparr>\<rparr>"

text \<open>The functions of the file that it stores in function-pointer fields.\<close>

datatype callback =
    CB_video_new_buffer | CB_video_del_buffer
  | CB_video_link_picture | CB_video_unlink_picture
  | CB_ImageRead | CB_ImageReadUrl | CB_ImageWrite | CB_ImageWriteUrl

text \<open>
  Modelled from the spec: the declarations of \<^verbatim>\<open>picture_t\<close>, of \<^verbatim>\<open>RESERVED_PICTURE\<close> and
  of \<^verbatim>\<open>block_t\<close> are in headers that are not among the sources.  A picture owns its pixel
  storage and a private-state slot and carries its release operation; the file reads
  its plane count and sets its status.  The payload is a byte buffer with its time
  stamps.
\<close>

datatype picture_status = FREE_PICTURE | RESERVED_PICTURE

text \<open>
  What the release pointer of a picture points to: \<^verbatim>\<open>video_release_buffer\<close> of this file,
  or a function of some module.
\<close>

datatype release_fn = FN_video_release_buffer | FN_module addr

record picture_t =
  pic_addr :: addr
  i_planes :: int
  p_data_orig :: "addr option"
  p_sys :: "addr option"
  pf_release :: "release_fn option"
  i_status :: picture_status

record block_t =
  i_pts :: mtime_t
  i_dts :: mtime_t
  p_buffer :: "8 word list"

text \<open>
  Modelled from the spec: the declarations of \<^verbatim>\<open>decoder_t\<close>, \<^verbatim>\<open>filter_t\<close> and
  \<^verbatim>\<open>image_handler_t\<close> are in headers that are not among the sources.  An engine binding
  has its negotiated input and output format; the handler owns zero or one decoder and
  zero or one filter and refers to the enclosing context.  The records hold the address
  of the object (what \<^verbatim>\<open>vlc_object_create\<close> or \<^verbatim>\<open>malloc\<close> returned) and the fields the
  file touches.  \<open>None\<close> is the null pointer.
\<close>

record decoder_t =
  dec_addr :: addr
  p_module :: "addr option"
  fmt_in :: es_format_t
  fmt_out :: es_format_t
  pf_vout_buffer_new :: "callback option"
  pf_vout_buffer_del :: "callback option"
  pf_picture_link :: "callback option"
  pf_picture_unlink :: "callback option"

record filter_t =
  filter_addr :: addr
  p_module :: "addr option"
  fmt_in :: es_format_t
  fmt_out :: es_format_t
  pf_vout_buffer_new :: "callback option"
  pf_vout_buffer_del :: "callback option"

record image_handler_t =
  img_addr :: addr
  p_parent :: addr
  p_dec :: "decoder_t option"
  p_filter :: "filter_t option"
  pf_read :: "callback option"
  pf_read_url :: "callback option"
  pf_write :: "callback option"
  pf_write_url :: "callback option"

datatype vlc_object_type = VLC_OBJECT_DECODER | VLC_OBJECT_FILTER

datatype msg =
    Msg_out_of_memory
  | Msg_no_suitable_decoder vlc_fourcc_t
  | Msg_no_image_decoded
  | Msg_no_video_filter

text \<open>
  The calls into the host, with their arguments.  A call on an object is logged with the
  type the object was created with and its address.  \<^verbatim>\<open>vlc_object_attach\<close> and
  \<^verbatim>\<open>vout_AllocatePicture\<close> are also called with a pointer the file has not checked:
  there the pointer is logged, \<open>None\<close> when it is null.
\<close>

datatype event =
    Ev_malloc
  | Ev_free addr
  | Ev_mdate
  | Ev_msg_Dbg addr msg
  | Ev_msg_Err addr msg
  | Ev_vlc_object_create addr vlc_object_type
  | Ev_vlc_object_attach vlc_object_type "addr option" addr
  | Ev_vlc_object_detach vlc_object_type addr
  | Ev_vlc_object_destroy vlc_object_type addr
  | Ev_module_Need addr string
  | Ev_module_Unneed addr addr
  | Ev_es_format_Clean es_format_t
  | Ev_vout_AllocatePicture addr "addr option" vlc_fourcc_t "32 word" "32 word" "32 word"
  | Ev_pf_decode_video decoder_t "block_t option"
  | Ev_pf_video_filter filter_t picture_t
  | Ev_pf_release picture_t

text \<open>
  The host.  \<open>module_Need_decoder\<close> and \<open>module_Need_filter\<close> return the module found
  (or null) and the object as the probed modules left it; \<open>pf_decode_video\<close> takes the
  decoder and the content of the block pointer it is given the address of, and returns
  the picture (or null), the decoder and the block pointer as it left them;
  \<open>pf_video_filter\<close> likewise.  \<open>vout_AllocatePicture\<close> takes the object and the
  address of the picture structure and returns the content it gives the structure.
\<close>

record host =
  malloc :: "event list \<Rightarrow> addr option"
  mdate :: "event list \<Rightarrow> mtime_t"
  vlc_object_create :: "event list \<Rightarrow> addr \<Rightarrow> vlc_object_type \<Rightarrow> addr option"
  module_Need_decoder :: "event list \<Rightarrow> decoder_t \<Rightarrow> addr option \<times> decoder_t"
  module_Need_filter :: "event list \<Rightarrow> filter_t \<Rightarrow> addr option \<times> filter_t"
  pf_decode_video ::
    "event list \<Rightarrow> decoder_t \<Rightarrow> block_t option \<Rightarrow> picture_t option \<times> decoder_t \<times> block_t option"
  pf_video_filter :: "event list \<Rightarrow> filter_t \<Rightarrow> picture_t \<Rightarrow> picture_t option \<times> filter_t"
  vout_AllocatePicture ::
    "event list \<Rightarrow> addr \<Rightarrow> addr \<Rightarrow> vlc_fourcc_t \<Rightarrow> 32 word \<Rightarrow> 32 word \<Rightarrow> 32 word
       \<Rightarrow> picture_t"

text \<open>A call that dereferences a null pointer does not return.\<close>

datatype fault = NULL_dereference

text \<open>
  Modelled from the spec: the value of \<^verbatim>\<open>VLC_EGENERIC\<close> is in a header that is not among
  the sources; it is a failure code, distinct from success.
\<close>

datatype vlc_status = VLC_SUCCESS | VLC_EGENERIC

section \<open>The handler\<close>

text \<open>
  \<^verbatim>\<open>__image_HandlerCreate\<close>: the result of \<^verbatim>\<open>malloc\<close> is not checked before
  \<^verbatim>\<open>memset\<close> writes through it.
\<close>

definition image_HandlerCreate ::
  "host \<Rightarrow> addr \<Rightarrow> event list \<Rightarrow> (fault + image_handler_t) \<times> event list" where
  "image_HandlerCreate h p_this tr =
     (case malloc h tr of
        None \<Rightarrow> (Inl NULL_dereference, tr @ [Ev_malloc])
      | Some a \<Rightarrow>
          (Inr \<lparr>img_addr = a, p_parent = p_this, p_dec = None, p_filter = None,
                pf_read = Some CB_ImageRead, pf_read_url = Some CB_ImageReadUrl,
                pf_write = Some CB_ImageWrite, pf_write_url = Some CB_ImageWriteUrl\<rparr>,
           tr @ [Ev_malloc]))"

section \<open>Decoder and filter objects\<close>

definition DeleteDecoder :: "decoder_t \<Rightarrow> event list \<Rightarrow> event list" where
  "DeleteDecoder dec tr =
     tr @ [Ev_vlc_object_detach VLC_OBJECT_DECODER (dec_addr dec)]
        @ (case decoder_t.p_module dec of
             Some m \<Rightarrow> [Ev_module_Unneed (dec_addr dec) m]
           | None \<Rightarrow> [])
        @ [Ev_es_format_Clean (decoder_t.fmt_in dec),
           Ev_es_format_Clean (decoder_t.fmt_out dec),
           Ev_vlc_object_destroy VLC_OBJECT_DECODER (dec_addr dec)]"

definition CreateDecoder ::
  "host \<Rightarrow> addr \<Rightarrow> video_format_t \<Rightarrow> event list \<Rightarrow> decoder_t option \<times> event list" where
  "CreateDecoder h p_this fmt tr =
     (case vlc_object_create h tr p_this VLC_OBJECT_DECODER of
        None \<Rightarrow>
          (None, tr @ [Ev_vlc_object_create p_this VLC_OBJECT_DECODER,
                       Ev_msg_Err p_this Msg_out_of_memory])
      | Some a \<Rightarrow>
          (let d0 = \<lparr>dec_addr = a, p_module = None,
                     fmt_in = null_es_format\<lparr>video := fmt, i_cat := VIDEO_ES,
                                              i_codec := i_chroma fmt\<rparr>,
                     fmt_out = null_es_format,
                     pf_vout_buffer_new = Some CB_video_new_buffer,
                     pf_vout_buffer_del = Some CB_video_del_buffer,
                     pf_picture_link = Some CB_video_link_picture,
                     pf_picture_unlink = Some CB_video_unlink_picture\<rparr>;
               tr1 = tr @ [Ev_vlc_object_create p_this VLC_OBJECT_DECODER,
                           Ev_vlc_object_attach VLC_OBJECT_DECODER (Some a) p_this];
               (m, d1) = module_Need_decoder h tr1 d0;
               d2 = d1\<lparr>decoder_t.p_module := m\<rparr>;
               tr2 = tr1 @ [Ev_module_Need a ''decoder'']
           in case m of
                None \<Rightarrow>
                  (None,
                   DeleteDecoder d2
                     (tr2 @ [Ev_msg_Err a
                               (Msg_no_suitable_decoder (i_codec (decoder_t.fmt_in d2)))]))
              | Some _ \<Rightarrow> (Some d2, tr2)))"

definition DeleteFilter :: "filter_t \<Rightarrow> event list \<Rightarrow> event list" where
  "DeleteFilter flt tr =
     tr @ [Ev_vlc_object_detach VLC_OBJECT_FILTER (filter_addr flt)]
        @ (case filter_t.p_module flt of
             Some m \<Rightarrow> [Ev_module_Unneed (filter_addr flt) m]
           | None \<Rightarrow> [])
        @ [Ev_es_format_Clean (filter_t.fmt_in flt),
           Ev_es_format_Clean (filter_t.fmt_out flt),
           Ev_vlc_object_destroy VLC_OBJECT_FILTER (filter_addr flt)]"

text \<open>
  \<^verbatim>\<open>CreateFilter\<close> does not check what \<^verbatim>\<open>vlc_object_create\<close> returns: a null object
  is passed to \<^verbatim>\<open>vlc_object_attach\<close> and then written through.
\<close>

definition CreateFilter ::
  "host \<Rightarrow> addr \<Rightarrow> es_format_t \<Rightarrow> video_format_t \<Rightarrow> event list
     \<Rightarrow> (fault + filter_t option) \<times> event list" where
  "CreateFilter h p_this p_fmt_in p_fmt_out tr =
     (case vlc_object_create h tr p_this VLC_OBJECT_FILTER of
        None \<Rightarrow>
          (Inl NULL_dereference,
           tr @ [Ev_vlc_object_create p_this VLC_OBJECT_FILTER,
                 Ev_vlc_object_attach VLC_OBJECT_FILTER None p_this])
      | Some a \<Rightarrow>
          (let f0 = \<lparr>filter_addr = a, p_module = None,
                     fmt_in = p_fmt_in,
                     fmt_out = p_fmt_in\<lparr>i_codec := i_chroma p_fmt_out, video := p_fmt_out\<rparr>,
                     pf_vout_buffer_new = Some CB_video_new_buffer,
                     pf_vout_buffer_del = Some CB_video_del_buffer\<rparr>;
               tr1 = tr @ [Ev_vlc_object_create p_this VLC_OBJECT_FILTER,
                           Ev_vlc_object_attach VLC_OBJECT_FILTER (Some a) p_this];
               (m, f1) = module_Need_filter h tr1 f0;
               f2 = f1\<lparr>filter_t.p_module := m\<rparr>;
               tr2 = tr1 @ [Ev_module_Need a ''video filter2'']
           in case m of
                None \<Rightarrow> (Inr None, DeleteFilter f2 (tr2 @ [Ev_msg_Dbg a Msg_no_video_filter]))
              | Some _ \<Rightarrow> (Inr (Some f2), tr2)))"

text \<open>\<^verbatim>\<open>image_HandlerDelete\<close>\<close>

definition image_HandlerDelete :: "image_handler_t option \<Rightarrow> event list \<Rightarrow> event list" where
  "image_HandlerDelete p_image tr =
     (case p_image of
        None \<Rightarrow> tr
      | Some img \<Rightarrow>
          (let tr1 = (case p_dec img of Some d \<Rightarrow> DeleteDecoder d tr | None \<Rightarrow> tr);
               tr2 = (case p_filter img of Some f \<Rightarrow> DeleteFilter f tr1 | None \<Rightarrow> tr1)
           in tr2 @ [Ev_free (img_addr img)]))"

section \<open>Picture buffers\<close>

text \<open>
  \<^verbatim>\<open>video_new_buffer\<close>, as the decoder's \<^verbatim>\<open>pf_vout_buffer_new\<close>.  It returns the picture
  (or null) and leaves the decoder as returned here.  The result of \<^verbatim>\<open>malloc\<close> is not
  checked: a null picture is passed to \<^verbatim>\<open>vout_AllocatePicture\<close> and then read through.
\<close>

definition video_new_buffer ::
  "host \<Rightarrow> decoder_t \<Rightarrow> event list \<Rightarrow> (fault + picture_t option) \<times> decoder_t \<times> event list" where
  "video_new_buffer h dec tr =
     (let tr1 = tr @ [Ev_malloc];
          d1 = dec\<lparr>decoder_t.fmt_out :=
                 (decoder_t.fmt_out dec)\<lparr>video :=
                    (video (decoder_t.fmt_out dec))\<lparr>i_chroma :=
                       i_codec (decoder_t.fmt_out dec)\<rparr>\<rparr>\<rparr>;
          v = video (decoder_t.fmt_out d1)
      in case malloc h tr of
           None \<Rightarrow>
             (Inl NULL_dereference, d1,
              tr1 @ [Ev_vout_AllocatePicture (dec_addr d1) None (i_chroma v)
                       (i_width v) (i_height v) (i_aspect v)])
         | Some a \<Rightarrow>
             (let p = (vout_AllocatePicture h tr1 (dec_addr d1) a (i_chroma v) (i_width v)
                         (i_height v) (i_aspect v))\<lparr>pic_addr := a\<rparr>;
                  tr2 = tr1 @ [Ev_vout_AllocatePicture (dec_addr d1) (Some a) (i_chroma v)
                                 (i_width v) (i_height v) (i_aspect v)]
              in if i_planes p = 0 then (Inr None, d1, tr2 @ [Ev_free a])
                 else (Inr (Some (p\<lparr>pf_release := Some FN_video_release_buffer,
                                      i_status := RESERVED_PICTURE,
                                      p_sys := None\<rparr>)),
                       d1, tr2)))"

text \<open>
  Modelled from the spec: the layouts of \<^verbatim>\<open>decoder_t\<close> and \<^verbatim>\<open>filter_t\<close> are in headers
  that are not among the sources.  \<^verbatim>\<open>CreateFilter\<close> stores \<^verbatim>\<open>video_new_buffer\<close> in the
  filter's \<^verbatim>\<open>pf_vout_buffer_new\<close> behind a cast to a function of a filter; the spec
  registers the one buffer manager with both engine bindings as their allocation
  strategy.  So the fields the body reaches through its decoder pointer are taken to be
  the same fields of the filter: this is \<^verbatim>\<open>video_new_buffer\<close> called by a filter.
\<close>

definition video_new_buffer_filter ::
  "host \<Rightarrow> filter_t \<Rightarrow> event list \<Rightarrow> (fault + picture_t option) \<times> filter_t \<times> event list" where
  "video_new_buffer_filter h flt tr =
     (let tr1 = tr @ [Ev_malloc];
          f1 = flt\<lparr>filter_t.fmt_out :=
                 (filter_t.fmt_out flt)\<lparr>video :=
                    (video (filter_t.fmt_out flt))\<lparr>i_chroma :=
                       i_codec (filter_t.fmt_out flt)\<rparr>\<rparr>\<rparr>;
          v = video (filter_t.fmt_out f1)
      in case malloc h tr of
           None \<Rightarrow>
             (Inl NULL_dereference, f1,
              tr1 @ [Ev_vout_AllocatePicture (filter_addr f1) None (i_chroma v)
                       (i_width v) (i_height v) (i_aspect v)])
         | Some a \<Rightarrow>
             (let p = (vout_AllocatePicture h tr1 (filter_addr f1) a (i_chroma v) (i_width v)
                         (i_height v) (i_aspect v))\<lparr>pic_addr := a\<rparr>;
                  tr2 = tr1 @ [Ev_vout_AllocatePicture (filter_addr f1) (Some a) (i_chroma v)
                                 (i_width v) (i_height v) (i_aspect v)]
              in if i_planes p = 0 then (Inr None, f1, tr2 @ [Ev_free a])
                 else (Inr (Some (p\<lparr>pf_release := Some FN_video_release_buffer,
                                      i_status := RESERVED_PICTURE,
                                      p_sys := None\<rparr>)),
                       f1, tr2)))"

text \<open>\<^verbatim>\<open>video_release_buffer\<close> and \<^verbatim>\<open>video_del_buffer\<close> have the same body.\<close>

definition video_release_buffer :: "picture_t option \<Rightarrow> event list \<Rightarrow> event list" where
  "video_release_buffer p_pic tr =
     (case p_pic of
        None \<Rightarrow> tr
      | Some p \<Rightarrow>
          tr @ (case p_data_orig p of Some a \<Rightarrow> [Ev_free a] | None \<Rightarrow> [])
             @ (case p_sys p of Some a \<Rightarrow> [Ev_free a] | None \<Rightarrow> [])
             @ [Ev_free (pic_addr p)])"

definition video_del_buffer :: "decoder_t \<Rightarrow> picture_t option \<Rightarrow> event list \<Rightarrow> event list" where
  "video_del_buffer dec p_pic tr =
     (case p_pic of
        None \<Rightarrow> tr
      | Some p \<Rightarrow>
          tr @ (case p_data_orig p of Some a \<Rightarrow> [Ev_free a] | None \<Rightarrow> [])
             @ (case p_sys p of Some a \<Rightarrow> [Ev_free a] | None \<Rightarrow> [])
             @ [Ev_free (pic_addr p)])"

text \<open>
  The call \<^verbatim>\<open>p_pic->pf_release( p_pic )\<close>: the call through the pointer is logged; a null
  pointer faults; when the pointer is \<^verbatim>\<open>video_release_buffer\<close>, that function runs.
\<close>

definition pf_release_call :: "picture_t \<Rightarrow> event list \<Rightarrow> (fault + unit) \<times> event list" where
  "pf_release_call p_pic tr =
     (case pf_release p_pic of
        None \<Rightarrow> (Inl NULL_dereference, tr)
      | Some FN_video_release_buffer \<Rightarrow>
          (Inr (), video_release_buffer (Some p_pic) (tr @ [Ev_pf_release p_pic]))
      | Some (FN_module a) \<Rightarrow> (Inr (), tr @ [Ev_pf_release p_pic]))"

section \<open>\<^verbatim>\<open>ImageRead\<close>\<close>

text \<open>Lines 96 to 102: check if the current decoder can be reused.\<close>

definition ImageRead_check_decoder ::
  "image_handler_t \<Rightarrow> video_format_t \<Rightarrow> event list \<Rightarrow> image_handler_t \<times> event list" where
  "ImageRead_check_decoder p_image p_fmt_in tr =
     (case p_dec p_image of
        Some d \<Rightarrow>
          if i_codec (decoder_t.fmt_in d) \<noteq> i_chroma p_fmt_in
          then (p_image\<lparr>p_dec := None\<rparr>, DeleteDecoder d tr)
          else (p_image, tr)
      | None \<Rightarrow> (p_image, tr))"

text \<open>Lines 104 to 109: start a decoder; the caller returns null when the slot stays empty.\<close>

definition ImageRead_start_decoder ::
  "host \<Rightarrow> image_handler_t \<Rightarrow> video_format_t \<Rightarrow> event list \<Rightarrow> image_handler_t \<times> event list" where
  "ImageRead_start_decoder h p_image p_fmt_in tr =
     (case p_dec p_image of
        None \<Rightarrow>
          (let (d, tr1) = CreateDecoder h (p_parent p_image) p_fmt_in tr
           in (p_image\<lparr>p_dec := d\<rparr>, tr1))
      | Some _ \<Rightarrow> (p_image, tr))"

text \<open>Lines 96 to 109: the handler and the events once the decoder slot is settled.\<close>

definition ImageRead_decoder ::
  "host \<Rightarrow> image_handler_t \<Rightarrow> video_format_t \<Rightarrow> event list \<Rightarrow> image_handler_t \<times> event list" where
  "ImageRead_decoder h p_image p_fmt_in tr =
     (let (img1, tr1) = ImageRead_check_decoder p_image p_fmt_in tr
      in ImageRead_start_decoder h img1 p_fmt_in tr1)"

text \<open>
  Lines 111 to 113: stamp the block, then two calls of the decoder on the address of the
  local block pointer; the first call's picture is kept.
\<close>

definition ImageRead_decode ::
  "host \<Rightarrow> decoder_t \<Rightarrow> block_t \<Rightarrow> event list
     \<Rightarrow> picture_t option \<times> decoder_t \<times> block_t option \<times> event list" where
  "ImageRead_decode h d p_block tr =
     (let t = mdate h tr;
          tr1 = tr @ [Ev_mdate];
          b = p_block\<lparr>i_dts := t, i_pts := t\<rparr>;
          (p_pic, d1, pb1) = pf_decode_video h tr1 d (Some b);
          tr2 = tr1 @ [Ev_pf_decode_video d (Some b)];
          (p_pic2, d2, pb2) = pf_decode_video h tr2 d1 pb1;
          tr3 = tr2 @ [Ev_pf_decode_video d1 pb1]
      in (p_pic, d2, pb2, tr3))"

text \<open>Lines 121 to 126: fields of the output format that are zero are taken from the decoder.\<close>

definition ImageRead_resolve :: "decoder_t \<Rightarrow> video_format_t \<Rightarrow> video_format_t" where
  "ImageRead_resolve d p_fmt_out =
     (let v = video (decoder_t.fmt_out d);
          f1 = (if i_chroma p_fmt_out = 0 then p_fmt_out\<lparr>i_chroma := i_chroma v\<rparr>
                else p_fmt_out);
          f2 = (if i_width f1 = 0 then f1\<lparr>i_width := i_width v\<rparr> else f1);
          f3 = (if i_height f2 = 0 then f2\<lparr>i_height := i_height v\<rparr> else f2)
      in f3)"

text \<open>Lines 129 to 131: is chroma conversion or resizing needed?\<close>

definition ImageRead_need_filter :: "decoder_t \<Rightarrow> video_format_t \<Rightarrow> bool" where
  "ImageRead_need_filter d p_fmt_out \<longleftrightarrow>
     i_chroma (video (decoder_t.fmt_out d)) \<noteq> i_chroma p_fmt_out \<or>
     i_width (video (decoder_t.fmt_out d)) \<noteq> i_width p_fmt_out \<or>
     i_height (video (decoder_t.fmt_out d)) \<noteq> i_height p_fmt_out"

text \<open>Lines 134 to 142: the test that restarts the filter.\<close>

definition ImageRead_filter_stale :: "filter_t \<Rightarrow> decoder_t \<Rightarrow> video_format_t \<Rightarrow> bool" where
  "ImageRead_filter_stale f d p_fmt_out \<longleftrightarrow>
     i_chroma (video (filter_t.fmt_in f)) \<noteq> i_chroma (video (decoder_t.fmt_out d)) \<or>
     i_width (video (filter_t.fmt_in f)) \<noteq> i_width (video (decoder_t.fmt_out d)) \<or>
     i_height (video (filter_t.fmt_in f)) \<noteq> i_height (video (decoder_t.fmt_out d)) \<or>
     i_chroma (video (filter_t.fmt_out f)) \<noteq> i_chroma p_fmt_out \<or>
     i_width (video (filter_t.fmt_out f)) \<noteq> i_width p_fmt_out \<or>
     i_height (video (filter_t.fmt_out f)) \<noteq> i_height p_fmt_out"

text \<open>Lines 133 to 147.\<close>

definition ImageRead_check_filter ::
  "image_handler_t \<Rightarrow> decoder_t \<Rightarrow> video_format_t \<Rightarrow> event list
     \<Rightarrow> image_handler_t \<times> event list" where
  "ImageRead_check_filter p_image d p_fmt_out tr =
     (case p_filter p_image of
        Some f \<Rightarrow>
          if ImageRead_filter_stale f d p_fmt_out
          then (p_image\<lparr>p_filter := None\<rparr>, DeleteFilter f tr)
          else (p_image, tr)
      | None \<Rightarrow> (p_image, tr))"

text \<open>Lines 163 and 164: run the filter and copy its output format to the caller.\<close>

definition ImageRead_filter ::
  "host \<Rightarrow> image_handler_t \<Rightarrow> filter_t \<Rightarrow> picture_t \<Rightarrow> event list
     \<Rightarrow> (fault + picture_t option) \<times> image_handler_t \<times> video_format_t \<times> event list" where
  "ImageRead_filter h p_image f p_pic tr =
     (let (q, f1) = pf_video_filter h tr f p_pic
      in (Inr q, p_image\<lparr>p_filter := Some f1\<rparr>, video (filter_t.fmt_out f1),
          tr @ [Ev_pf_video_filter f p_pic]))"

text \<open>Lines 158 and 159: release the decoded picture and return null.\<close>

definition ImageRead_release ::
  "image_handler_t \<Rightarrow> picture_t \<Rightarrow> video_format_t \<Rightarrow> event list
     \<Rightarrow> (fault + picture_t option) \<times> image_handler_t \<times> video_format_t \<times> event list" where
  "ImageRead_release p_image p_pic p_fmt_out tr =
     (case pf_release_call p_pic tr of
        (Inl e, tr1) \<Rightarrow> (Inl e, p_image, p_fmt_out, tr1)
      | (Inr u, tr1) \<Rightarrow> (Inr None, p_image, p_fmt_out, tr1))"

text \<open>
  Lines 128 to 168, with the decoder \<open>d\<close> of the handler, the decoded picture and the
  output format as resolved.  The result is the returned pointer (or the fault), the
  handler, the caller's output format and the events.
\<close>

definition ImageRead_convert ::
  "host \<Rightarrow> image_handler_t \<Rightarrow> decoder_t \<Rightarrow> picture_t \<Rightarrow> video_format_t \<Rightarrow> event list
     \<Rightarrow> (fault + picture_t option) \<times> image_handler_t \<times> video_format_t \<times> event list" where
  "ImageRead_convert h p_image d p_pic p_fmt_out tr =
     (if ImageRead_need_filter d p_fmt_out then
        (let (img1, tr1) = ImageRead_check_filter p_image d p_fmt_out tr
         in case p_filter img1 of
              Some f \<Rightarrow> ImageRead_filter h img1 f p_pic tr1
            | None \<Rightarrow>
                (case CreateFilter h (p_parent img1) (decoder_t.fmt_out d) p_fmt_out tr1 of
                   (Inl e, tr2) \<Rightarrow> (Inl e, img1, p_fmt_out, tr2)
                 | (Inr None, tr2) \<Rightarrow> ImageRead_release img1 p_pic p_fmt_out tr2
                 | (Inr (Some f), tr2) \<Rightarrow>
                     ImageRead_filter h (img1\<lparr>p_filter := Some f\<rparr>) f p_pic tr2))
      else (Inr (Some p_pic), p_image, video (decoder_t.fmt_out d), tr))"

definition ImageRead ::
  "host \<Rightarrow> image_handler_t \<Rightarrow> block_t \<Rightarrow> video_format_t \<Rightarrow> video_format_t \<Rightarrow> event list
     \<Rightarrow> (fault + picture_t option) \<times> image_handler_t \<times> video_format_t \<times> event list" where
  "ImageRead h p_image p_block p_fmt_in p_fmt_out tr =
     (let (img2, tr2) = ImageRead_decoder h p_image p_fmt_in tr
      in case p_dec img2 of
           None \<Rightarrow> (Inr None, img2, p_fmt_out, tr2)
         | Some d \<Rightarrow>
             (let (p_pic, d2, pb, tr3) = ImageRead_decode h d p_block tr2;
                  img3 = img2\<lparr>p_dec := Some d2\<rparr>
              in case p_pic of
                   None \<Rightarrow>
                     (Inr None, img3, p_fmt_out,
                      tr3 @ [Ev_msg_Dbg (p_parent img3) Msg_no_image_decoded])
                 | Some pic \<Rightarrow>
                     ImageRead_convert h img3 d2 pic (ImageRead_resolve d2 p_fmt_out) tr3))"

section \<open>\<^verbatim>\<open>ImageWrite\<close> and \<^verbatim>\<open>ImageWriteUrl\<close>\<close>

definition ImageWrite ::
  "image_handler_t \<Rightarrow> picture_t \<Rightarrow> video_format_t \<Rightarrow> video_format_t \<Rightarrow> event list
     \<Rightarrow> block_t option \<times> event list" where
  "ImageWrite p_image p_pic p_fmt_in p_fmt_out tr = (None, tr)"

definition ImageWriteUrl ::
  "image_handler_t \<Rightarrow> picture_t \<Rightarrow> video_format_t \<Rightarrow> video_format_t \<Rightarrow> string \<Rightarrow> event list
     \<Rightarrow> vlc_status \<times> event list" where
  "ImageWriteUrl p_image p_pic p_fmt_in p_fmt_out psz_url tr = (VLC_EGENERIC, tr)"

section \<open>Sequences of read calls\<close>


section \<open>Reading the events\<close>

fun is_msg_Err :: "event \<Rightarrow> bool" where
  "is_msg_Err (Ev_msg_Err _ _) = True"
| "is_msg_Err _ = False"

fun is_decoder_create :: "event \<Rightarrow> bool" where
  "is_decoder_create (Ev_vlc_object_create _ VLC_OBJECT_DECODER) = True"
| "is_decoder_create _ = False"

fun is_decoder_destroy :: "event \<Rightarrow> bool" where
  "is_decoder_destroy (Ev_vlc_object_destroy VLC_OBJECT_DECODER _) = True"
| "is_decoder_destroy _ = False"

fun is_filter_create :: "event \<Rightarrow> bool" where
  "is_filter_create (Ev_vlc_object_create _ VLC_OBJECT_FILTER) = True"
| "is_filter_create _ = False"

fun is_filter_destroy :: "event \<Rightarrow> bool" where
  "is_filter_destroy (Ev_vlc_object_destroy VLC_OBJECT_FILTER _) = True"
| "is_filter_destroy _ = False"

fun is_decode_call :: "event \<Rightarrow> bool" where
  "is_decode_call (Ev_pf_decode_video _ _) = True"
| "is_decode_call _ = False"

fun is_filter_call :: "event \<Rightarrow> bool" where
  "is_filter_call (Ev_pf_video_filter _ _) = True"
| "is_filter_call _ = False"

text \<open>The events that hand the picture \<open>p\<close> on, and those that release it.\<close>

fun passes_picture :: "picture_t \<Rightarrow> event \<Rightarrow> bool" where
  "passes_picture p (Ev_pf_video_filter _ q) = (q = p)"
| "passes_picture p _ = False"

fun releases_picture :: "picture_t \<Rightarrow> event \<Rightarrow> bool" where
  "releases_picture p (Ev_pf_release q) = (q = p)"
| "releases_picture p _ = False"

text \<open>What \<^verbatim>\<open>video_release_buffer\<close> frees of a picture, in its order.\<close>

definition picture_frees :: "picture_t \<Rightarrow> event list" where
  "picture_frees p =
     (case p_data_orig p of Some a \<Rightarrow> [Ev_free a] | None \<Rightarrow> [])
       @ (case p_sys p of Some a \<Rightarrow> [Ev_free a] | None \<Rightarrow> [])
       @ [Ev_free (pic_addr p)]"

text \<open>The events of the heap: allocation and release of storage.\<close>

fun is_heap_event :: "event \<Rightarrow> bool" where
  "is_heap_event Ev_malloc = True"
| "is_heap_event (Ev_free _) = True"
| "is_heap_event (Ev_vout_AllocatePicture _ _ _ _ _ _) = True"
| "is_heap_event _ = False"

text \<open>
  A decoder module that leaves the input codec of its decoder alone, when probed and
  when decoding.
\<close>

definition decoder_keeps_codec :: "host \<Rightarrow> bool" where
  "decoder_keeps_codec h \<longleftrightarrow>
     (\<forall>tr d. i_codec (decoder_t.fmt_in (snd (module_Need_decoder h tr d)))
              = i_codec (decoder_t.fmt_in d)) \<and>
     (\<forall>tr d b. i_codec (decoder_t.fmt_in (fst (snd (pf_decode_video h tr d b))))
              = i_codec (decoder_t.fmt_in d))"

section \<open>A concrete host and concrete inputs\<close>

text \<open>
  A host whose decoder produces a 100 by 100 picture in chroma \<open>0x30323449\<close> from a
  block and consumes the block, and whose filter returns a picture at another address.
\<close>

definition ex_picture :: picture_t where
  "ex_picture =
     \<lparr>pic_addr = 7, i_planes = 3, p_data_orig = Some 8, p_sys = None,
      pf_release = Some FN_video_release_buffer, i_status = RESERVED_PICTURE\<rparr>"

definition ex_native :: video_format_t where
  "ex_native = \<lparr>i_chroma = 0x30323449, i_aspect = 432, i_width = 100, i_height = 100\<rparr>"

definition ex_host :: host where
  "ex_host =
     \<lparr>malloc = (\<lambda>tr. Some (length tr)),
      mdate = (\<lambda>tr. 1000),
      vlc_object_create = (\<lambda>tr p ty. Some (Suc (length tr))),
      module_Need_decoder = (\<lambda>tr d. (Some 1, d)),
      module_Need_filter = (\<lambda>tr f. (Some 2, f)),
      pf_decode_video =
        (\<lambda>tr d b. (case b of Some _ \<Rightarrow> Some ex_picture | None \<Rightarrow> None,
                    d\<lparr>decoder_t.fmt_out :=
                        (decoder_t.fmt_out d)\<lparr>i_codec := 0x30323449, video := ex_native\<rparr>\<rparr>,
                    None)),
      pf_video_filter = (\<lambda>tr f p. (Some (p\<lparr>pic_addr := 9\<rparr>), f)),
      vout_AllocatePicture =
        (\<lambda>tr obj a c w hh asp.
           \<lparr>pic_addr = a, i_planes = (if w = 0 \<or> hh = 0 then 0 else 3),
            p_data_orig = Some (Suc a), p_sys = None, pf_release = None,
            i_status = FREE_PICTURE\<rparr>)\<rparr>"

text \<open>The same host with no video filter module, and with a decoder that gives no picture.\<close>

definition ex_host_no_filter :: host where
  "ex_host_no_filter = ex_host\<lparr>module_Need_filter := (\<lambda>tr f. (None, f))\<rparr>"

definition ex_host_no_picture :: host where
  "ex_host_no_picture = ex_host\<lparr>pf_decode_video := (\<lambda>tr d b. (None, d, b))\<rparr>"



definition ex_host_filter_oom :: host where
  "ex_host_filter_oom =
     ex_host\<lparr>vlc_object_create :=
       (\<lambda>tr p ty. case ty of VLC_OBJECT_DECODER \<Rightarrow> Some (Suc (length tr))
                             | VLC_OBJECT_FILTER \<Rightarrow> None)\<rparr>"

definition ex_image :: image_handler_t where
  "ex_image =
     \<lparr>img_addr = 1, p_parent = 0, p_dec = None, p_filter = None,
      pf_read = Some CB_ImageRead, pf_read_url = Some CB_ImageReadUrl,
      pf_write = Some CB_ImageWrite, pf_write_url = Some CB_ImageWriteUrl\<rparr>"

definition ex_block :: block_t where
  "ex_block = \<lparr>i_pts = 0, i_dts = 0, p_buffer = [0x89, 0x50, 0x4E, 0x47]\<rparr>"

definition ex_fmt_in :: video_format_t where
  "ex_fmt_in = \<lparr>i_chroma = 0x20676E70, i_aspect = 0, i_width = 0, i_height = 0\<rparr>"

definition ex_fmt_unset :: video_format_t where
  "ex_fmt_unset = \<lparr>i_chroma = 0, i_aspect = 0, i_width = 0, i_height = 0\<rparr>"

definition ex_fmt_half :: video_format_t where
  "ex_fmt_half = \<lparr>i_chroma = 0x32595559, i_aspect = 0, i_width = 50, i_height = 50\<rparr>"

text \<open>The decoder and the filter the concrete host leaves in the handler.\<close>

definition ex_decoder :: decoder_t where
  "ex_decoder =
     \<lparr>dec_addr = 1, p_module = Some 1,
      fmt_in = \<lparr>i_cat = VIDEO_ES, i_codec = 0x20676E70, video = ex_fmt_in\<rparr>,
      fmt_out = \<lparr>i_cat = UNKNOWN_ES, i_codec = 0x30323449, video = ex_native\<rparr>,
      pf_vout_buffer_new = Some CB_video_new_buffer,
      pf_vout_buffer_del = Some CB_video_del_buffer,
      pf_picture_link = Some CB_video_link_picture,
      pf_picture_unlink = Some CB_video_unlink_picture\<rparr>"

definition ex_decoder_new :: decoder_t where
  "ex_decoder_new = ex_decoder\<lparr>decoder_t.fmt_out := null_es_format\<rparr>"

definition ex_events_created :: "event list" where
  "ex_events_created =
     [Ev_vlc_object_create 0 VLC_OBJECT_DECODER,
      Ev_vlc_object_attach VLC_OBJECT_DECODER (Some 1) 0,
      Ev_module_Need 1 ''decoder'']"

definition ex_filter :: filter_t where
  "ex_filter =
     \<lparr>filter_addr = 5, p_module = Some 2,
      fmt_in = \<lparr>i_cat = UNKNOWN_ES, i_codec = 0x30323449, video = ex_native\<rparr>,
      fmt_out = \<lparr>i_cat = UNKNOWN_ES, i_codec = 0x32595559, video = ex_fmt_half\<rparr>,
      pf_vout_buffer_new = Some CB_video_new_buffer,
      pf_vout_buffer_del = Some CB_video_del_buffer\<rparr>"

definition ex_fmt_quarter :: video_format_t where
  "ex_fmt_quarter = \<lparr>i_chroma = 0x32595559, i_aspect = 0, i_width = 25, i_height = 25\<rparr>"

text \<open>The filter the concrete host creates from native to quarter size.\<close>

definition ex_filter_quarter :: filter_t where
  "ex_filter_quarter =
     \<lparr>filter_addr = 9, p_module = Some 2,
      fmt_in = \<lparr>i_cat = UNKNOWN_ES, i_codec = 0x30323449, video = ex_native\<rparr>,
      fmt_out = \<lparr>i_cat = UNKNOWN_ES, i_codec = 0x32595559, video = ex_fmt_quarter\<rparr>,
      pf_vout_buffer_new = Some CB_video_new_buffer,
      pf_vout_buffer_del = Some CB_video_del_buffer\<rparr>"

text \<open>A filter whose output codec is set and whose output chroma is not.\<close>

definition ex_filter_unset :: filter_t where
  "ex_filter_unset =
     ex_filter\<lparr>filter_t.fmt_out := (filter_t.fmt_out ex_filter)\<lparr>video := ex_fmt_unset\<rparr>\<rparr>"

definition ex_fmt_wide :: video_format_t where
  "ex_fmt_wide = \<lparr>i_chroma = 0, i_aspect = 7, i_width = 50, i_height = 0\<rparr>"

text \<open>A decoder whose output codec is set and whose output chroma is not yet.\<close>

definition ex_decoder_unset :: decoder_t where
  "ex_decoder_unset =
     ex_decoder\<lparr>decoder_t.fmt_out := (decoder_t.fmt_out ex_decoder)\<lparr>video := ex_fmt_unset\<rparr>\<rparr>"

text \<open>A handler that holds the decoder and a filter from native to half size.\<close>

definition ex_image_cached :: image_handler_t where
  "ex_image_cached = ex_image\<lparr>p_dec := Some ex_decoder, p_filter := Some ex_filter\<rparr>"

definition ex_block_stamped :: block_t where
  "ex_block_stamped = ex_block\<lparr>i_dts := 1000, i_pts := 1000\<rparr>"


section \<open>The reuse rule for the filter, in the spec's words\<close>

text \<open>
  Section 4.3 of the spec: a cached transform binding is valid for reuse only if all six
  of input pixel encoding, input width, input height, output pixel encoding, output
  width and output height match the currently required values exactly.  The required
  input is the decoder's output format, the required output the resolved output format.
\<close>

definition spec_transform_binding_valid ::
  "filter_t \<Rightarrow> video_format_t \<Rightarrow> video_format_t \<Rightarrow> bool" where
  "spec_transform_binding_valid f required_in required_out \<longleftrightarrow>
     i_chroma (video (filter_t.fmt_in f)) = i_chroma required_in \<and>
     i_width (video (filter_t.fmt_in f)) = i_width required_in \<and>
     i_height (video (filter_t.fmt_in f)) = i_height required_in \<and>
     i_chroma (video (filter_t.fmt_out f)) = i_chroma required_out \<and>
     i_width (video (filter_t.fmt_out f)) = i_width required_out \<and>
     i_height (video (filter_t.fmt_out f)) = i_height required_out"

section \<open>The stages of \<^verbatim>\<open>ImageRead\<close>\<close>

lemma image_HandlerCreate_empty:
  assumes "image_HandlerCreate h p_this tr = (Inr img, tr1)"
  shows "p_dec img = None \<and> p_filter img = None \<and> p_parent img = p_this"
  using assms by (auto simp: image_HandlerCreate_def split: option.splits)


lemma ImageRead_no_picture:
  assumes "ImageRead_decoder h img fi tr = (img2, tr2)" and "p_dec img2 = Some d"
    and "ImageRead_decode h d blk tr2 = (None, d2, pb, tr3)"
  shows "ImageRead h img blk fi fo tr =
           (Inr None, img2\<lparr>p_dec := Some d2\<rparr>, fo,
            tr3 @ [Ev_msg_Dbg (p_parent img2) Msg_no_image_decoded])"
  using assms by (simp add: ImageRead_def)

lemma ImageRead_picture:
  assumes "ImageRead_decoder h img fi tr = (img2, tr2)" and "p_dec img2 = Some d"
    and "ImageRead_decode h d blk tr2 = (Some pic, d2, pb, tr3)"
  shows "ImageRead h img blk fi fo tr =
           ImageRead_convert h (img2\<lparr>p_dec := Some d2\<rparr>) d2 pic (ImageRead_resolve d2 fo) tr3"
  using assms by (simp add: ImageRead_def)

lemma ImageRead_decoder_cached:
  assumes "p_dec img = Some d" and "i_codec (decoder_t.fmt_in d) = i_chroma fi"
  shows "ImageRead_decoder h img fi tr = (img, tr)"
  using assms
  by (simp add: ImageRead_decoder_def ImageRead_check_decoder_def ImageRead_start_decoder_def)

lemma ImageRead_decoder_stale:
  assumes "p_dec img = Some d" and "i_codec (decoder_t.fmt_in d) \<noteq> i_chroma fi"
  shows "ImageRead_decoder h img fi tr =
           (img\<lparr>p_dec := fst (CreateDecoder h (p_parent img) fi (DeleteDecoder d tr))\<rparr>,
            snd (CreateDecoder h (p_parent img) fi (DeleteDecoder d tr)))"
  using assms
  by (simp add: ImageRead_decoder_def ImageRead_check_decoder_def ImageRead_start_decoder_def
      split: prod.splits)

lemma ImageRead_decoder_absent:
  assumes "p_dec img = None"
  shows "ImageRead_decoder h img fi tr =
           (img\<lparr>p_dec := fst (CreateDecoder h (p_parent img) fi tr)\<rparr>,
            snd (CreateDecoder h (p_parent img) fi tr))"
  using assms
  by (simp add: ImageRead_decoder_def ImageRead_check_decoder_def ImageRead_start_decoder_def
      split: prod.splits)

lemma ImageRead_decoder_frame:
  "p_filter (fst (ImageRead_decoder h img fi tr)) = p_filter img \<and>
   p_parent (fst (ImageRead_decoder h img fi tr)) = p_parent img \<and>
   img_addr (fst (ImageRead_decoder h img fi tr)) = img_addr img"
  by (simp add: ImageRead_decoder_def ImageRead_check_decoder_def ImageRead_start_decoder_def
      split: prod.splits option.splits)


lemma DeleteDecoder_events:
  "\<exists>evs. DeleteDecoder d tr = tr @ Ev_vlc_object_detach VLC_OBJECT_DECODER (dec_addr d) # evs \<and>
         filter is_decoder_create evs = [] \<and>
         filter is_decoder_destroy evs = [Ev_vlc_object_destroy VLC_OBJECT_DECODER (dec_addr d)] \<and>
         filter is_msg_Err evs = [] \<and>
         filter is_filter_create evs = [] \<and>
         filter is_filter_call evs = [] \<and>
         filter is_decode_call evs = [] \<and>
         filter (passes_picture p) evs = [] \<and>
         filter (releases_picture p) evs = []"
  by (simp add: DeleteDecoder_def split: option.splits)

lemma DeleteFilter_events:
  "\<exists>evs. DeleteFilter f tr = tr @ Ev_vlc_object_detach VLC_OBJECT_FILTER (filter_addr f) # evs \<and>
         filter is_decoder_create evs = [] \<and>
         filter is_decoder_destroy evs = [] \<and>
         filter is_msg_Err evs = [] \<and>
         filter is_filter_call evs = [] \<and>
         filter is_decode_call evs = [] \<and>
         filter (passes_picture p) evs = [] \<and>
         filter (releases_picture p) evs = []"
  by (simp add: DeleteFilter_def split: option.splits)

lemma CreateDecoder_events:
  "\<exists>evs. snd (CreateDecoder h pp fi tr) = tr @ Ev_vlc_object_create pp VLC_OBJECT_DECODER # evs \<and>
         filter is_decoder_create evs = [] \<and>
         filter is_filter_create evs = [] \<and>
         filter is_filter_call evs = [] \<and>
         filter is_decode_call evs = [] \<and>
         filter (passes_picture p) evs = [] \<and>
         filter (releases_picture p) evs = [] \<and>
         (fst (CreateDecoder h pp fi tr) \<noteq> None \<longrightarrow>
            filter is_decoder_destroy evs = [] \<and> filter is_msg_Err evs = [])"
  by (simp add: CreateDecoder_def DeleteDecoder_def Let_def split: option.splits prod.splits)

lemma CreateFilter_events:
  "\<exists>evs. snd (CreateFilter h pp fmt fo tr) = tr @ Ev_vlc_object_create pp VLC_OBJECT_FILTER # evs \<and>
         filter is_decoder_create evs = [] \<and>
         filter is_decoder_destroy evs = [] \<and>
         filter is_msg_Err evs = [] \<and>
         filter is_filter_call evs = [] \<and>
         filter is_decode_call evs = [] \<and>
         filter (passes_picture p) evs = [] \<and>
         filter (releases_picture p) evs = []"
  by (simp add: CreateFilter_def DeleteFilter_def Let_def split: option.splits prod.splits)

lemma ImageRead_decoder_events:
  "\<exists>evs. snd (ImageRead_decoder h img fi tr) = tr @ evs \<and>
         filter is_filter_create evs = [] \<and>
         filter is_filter_call evs = [] \<and>
         filter is_decode_call evs = [] \<and>
         filter (passes_picture p) evs = [] \<and>
         filter (releases_picture p) evs = [] \<and>
         (p_dec (fst (ImageRead_decoder h img fi tr)) \<noteq> None \<longrightarrow> filter is_msg_Err evs = [])"
proof (cases "p_dec img")
  case None
  obtain evs where
    "snd (CreateDecoder h (p_parent img) fi tr) =
       tr @ Ev_vlc_object_create (p_parent img) VLC_OBJECT_DECODER # evs"
    "filter is_filter_create evs = []" "filter is_filter_call evs = []"
    "filter is_decode_call evs = []"
    "filter (passes_picture p) evs = []" "filter (releases_picture p) evs = []"
    "fst (CreateDecoder h (p_parent img) fi tr) \<noteq> None \<longrightarrow> filter is_msg_Err evs = []"
    using CreateDecoder_events [of h "p_parent img" fi tr p] by blast
  then show ?thesis
    by (simp add: ImageRead_decoder_absent [OF None])
next
  case (Some d)
  show ?thesis
  proof (cases "i_codec (decoder_t.fmt_in d) = i_chroma fi")
    case True
    then show ?thesis by (simp add: ImageRead_decoder_cached [OF Some])
  next
    case False
    obtain evs1 where evs1:
      "DeleteDecoder d tr = tr @ Ev_vlc_object_detach VLC_OBJECT_DECODER (dec_addr d) # evs1"
      "filter is_filter_create evs1 = []" "filter is_filter_call evs1 = []"
      "filter is_decode_call evs1 = []"
      "filter (passes_picture p) evs1 = []" "filter (releases_picture p) evs1 = []"
      "filter is_msg_Err evs1 = []"
      using DeleteDecoder_events [of d tr p] by blast
    obtain evs2 where evs2:
      "snd (CreateDecoder h (p_parent img) fi (DeleteDecoder d tr)) =
         DeleteDecoder d tr @ Ev_vlc_object_create (p_parent img) VLC_OBJECT_DECODER # evs2"
      "filter is_filter_create evs2 = []" "filter is_filter_call evs2 = []"
      "filter is_decode_call evs2 = []"
      "filter (passes_picture p) evs2 = []" "filter (releases_picture p) evs2 = []"
      "fst (CreateDecoder h (p_parent img) fi (DeleteDecoder d tr)) \<noteq> None
         \<longrightarrow> filter is_msg_Err evs2 = []"
      using CreateDecoder_events [of h "p_parent img" fi "DeleteDecoder d tr" p] by blast
    have "snd (ImageRead_decoder h img fi tr) =
            tr @ (Ev_vlc_object_detach VLC_OBJECT_DECODER (dec_addr d) # evs1
                  @ Ev_vlc_object_create (p_parent img) VLC_OBJECT_DECODER # evs2)"
      by (simp add: ImageRead_decoder_stale [OF Some False] evs2(1)) (simp add: evs1(1))
    moreover have "p_dec (fst (ImageRead_decoder h img fi tr)) =
                     fst (CreateDecoder h (p_parent img) fi (DeleteDecoder d tr))"
      by (simp add: ImageRead_decoder_stale [OF Some False])
    ultimately show ?thesis
      using evs1(2-) evs2(2-) by simp
  qed
qed




lemma ImageRead_decode_events:
  "\<exists>d1 pb1. snd (snd (snd (ImageRead_decode h d blk tr))) =
      tr @ [Ev_mdate,
            Ev_pf_decode_video d (Some (blk\<lparr>i_dts := mdate h tr, i_pts := mdate h tr\<rparr>)),
            Ev_pf_decode_video d1 pb1]"
  by (simp add: ImageRead_decode_def Let_def split: prod.splits)



lemma ImageRead_convert_skip:
  assumes "\<not> ImageRead_need_filter d fo"
  shows "ImageRead_convert h img d pic fo tr = (Inr (Some pic), img, video (decoder_t.fmt_out d), tr)"
  using assms by (simp add: ImageRead_convert_def)

lemma ImageRead_convert_reuse:
  assumes "ImageRead_need_filter d fo" and "p_filter img = Some f"
    and "\<not> ImageRead_filter_stale f d fo"
  shows "ImageRead_convert h img d pic fo tr = ImageRead_filter h img f pic tr"
  using assms by (simp add: ImageRead_convert_def ImageRead_check_filter_def)

lemma ImageRead_convert_create:
  assumes "ImageRead_need_filter d fo"
    and "ImageRead_check_filter img d fo tr = (img1, tr1)" and "p_filter img1 = None"
  shows "ImageRead_convert h img d pic fo tr =
           (case CreateFilter h (p_parent img) (decoder_t.fmt_out d) fo tr1 of
              (Inl e, tr2) \<Rightarrow> (Inl e, img\<lparr>p_filter := None\<rparr>, fo, tr2)
            | (Inr None, tr2) \<Rightarrow> ImageRead_release (img\<lparr>p_filter := None\<rparr>) pic fo tr2
            | (Inr (Some g), tr2) \<Rightarrow>
                ImageRead_filter h (img\<lparr>p_filter := Some g\<rparr>) g pic tr2)"
proof -
  have "img1 = img\<lparr>p_filter := None\<rparr>" and "p_parent img1 = p_parent img"
    using assms(2,3)
    by (auto simp: ImageRead_check_filter_def split: option.splits if_splits)
  then show ?thesis
    using assms
    by (simp add: ImageRead_convert_def split: prod.splits sum.splits option.splits)
qed

lemma ImageRead_check_filter_stale:
  assumes "p_filter img = Some f" and "ImageRead_filter_stale f d fo"
  shows "ImageRead_check_filter img d fo tr = (img\<lparr>p_filter := None\<rparr>, DeleteFilter f tr)"
  using assms by (simp add: ImageRead_check_filter_def)

lemma ImageRead_check_filter_absent:
  assumes "p_filter img = None"
  shows "ImageRead_check_filter img d fo tr = (img, tr)"
  using assms by (simp add: ImageRead_check_filter_def)

lemma ImageRead_check_filter_events:
  "\<exists>evs. snd (ImageRead_check_filter img d fo tr) = tr @ evs \<and>
         filter is_decoder_create evs = [] \<and>
         filter is_decoder_destroy evs = [] \<and>
         filter is_msg_Err evs = [] \<and>
         filter is_filter_call evs = [] \<and>
         filter is_decode_call evs = [] \<and>
         filter (passes_picture p) evs = [] \<and>
         filter (releases_picture p) evs = []"
proof (cases "\<exists>f. p_filter img = Some f \<and> ImageRead_filter_stale f d fo")
  case True
  then obtain f where f: "p_filter img = Some f" "ImageRead_filter_stale f d fo" by blast
  obtain evs where
    "DeleteFilter f tr = tr @ Ev_vlc_object_detach VLC_OBJECT_FILTER (filter_addr f) # evs"
    "filter is_decoder_create evs = []" "filter is_decoder_destroy evs = []"
    "filter is_msg_Err evs = []" "filter is_filter_call evs = []"
    "filter is_decode_call evs = []"
    "filter (passes_picture p) evs = []" "filter (releases_picture p) evs = []"
    using DeleteFilter_events [of f tr p] by blast
  then show ?thesis
    by (simp add: ImageRead_check_filter_stale [OF f])
next
  case False
  then have "ImageRead_check_filter img d fo tr = (img, tr)"
    by (auto simp: ImageRead_check_filter_def split: option.splits)
  then show ?thesis by simp
qed

lemma pf_release_call_null:
  assumes "pf_release p = None"
  shows "pf_release_call p tr = (Inl NULL_dereference, tr)"
  using assms by (simp add: pf_release_call_def)


lemma ImageRead_release_result:
  "ImageRead_release img p fo tr =
     (case fst (pf_release_call p tr) of Inl e \<Rightarrow> Inl e | Inr u \<Rightarrow> Inr None,
      img, fo, snd (pf_release_call p tr))"
  by (simp add: ImageRead_release_def split: prod.splits sum.splits)

lemma ImageRead_filter_result:
  "ImageRead_filter h img f pic tr =
     (Inr (fst (pf_video_filter h tr f pic)),
      img\<lparr>p_filter := Some (snd (pf_video_filter h tr f pic))\<rparr>,
      video (filter_t.fmt_out (snd (pf_video_filter h tr f pic))),
      tr @ [Ev_pf_video_filter f pic])"
  by (simp add: ImageRead_filter_def split: prod.splits)







lemma DeleteFilter_destroys:
  "\<exists>evs. DeleteFilter f tr = tr @ evs \<and>
         filter is_filter_destroy evs = [Ev_vlc_object_destroy VLC_OBJECT_FILTER (filter_addr f)] \<and>
         filter is_filter_create evs = [] \<and>
         filter is_filter_call evs = []"
  by (simp add: DeleteFilter_def split: option.splits)

lemma CreateFilter_calls_no_filter:
  "\<exists>evs. snd (CreateFilter h pp fmt fo tr) = tr @ Ev_vlc_object_create pp VLC_OBJECT_FILTER # evs \<and>
         filter is_filter_create evs = [] \<and>
         filter is_filter_call evs = []"
  by (simp add: CreateFilter_def DeleteFilter_def Let_def split: option.splits prod.splits)

lemma video_release_buffer_frees:
  "video_release_buffer (Some p) tr = tr @ picture_frees p"
  by (simp add: video_release_buffer_def picture_frees_def)

lemma pf_release_call_no_filter:
  "\<exists>evs. snd (pf_release_call p tr) = tr @ evs \<and>
         filter is_filter_create evs = [] \<and>
         filter is_filter_call evs = []"
  by (simp add: pf_release_call_def video_release_buffer_def
      split: option.splits release_fn.splits)

lemma pf_release_call_exact:
  assumes "pf_release p = Some rf"
  shows "pf_release_call p tr =
           (Inr (), tr @ Ev_pf_release p #
              (case rf of FN_video_release_buffer \<Rightarrow> picture_frees p | FN_module a \<Rightarrow> []))"
  using assms
  by (simp add: pf_release_call_def video_release_buffer_frees split: release_fn.splits)



lemma ImageRead_null_filter_releases:
  assumes "ImageRead_decoder h p_image p_fmt_in tr = (img2, tr2)" and "p_dec img2 = Some d"
    and "ImageRead_decode h d p_block tr2 = (Some pic, d2, pb, tr3)"
    and "r = ImageRead_resolve d2 p_fmt_out"
    and "i_chroma (video (decoder_t.fmt_out d2)) \<noteq> i_chroma r \<or>
         i_width (video (decoder_t.fmt_out d2)) \<noteq> i_width r \<or>
         i_height (video (decoder_t.fmt_out d2)) \<noteq> i_height r"
    and "ImageRead_check_filter (img2\<lparr>p_dec := Some d2\<rparr>) d2 r tr3 = (img4, tr4)"
    and "p_filter img4 = None"
    and "CreateFilter h (p_parent p_image) (decoder_t.fmt_out d2) r tr4 = (Inr None, tr5)"
    and "pf_release pic = Some rf"
  shows "fst (ImageRead h p_image p_block p_fmt_in p_fmt_out tr) = Inr None \<and>
         p_filter (fst (snd (ImageRead h p_image p_block p_fmt_in p_fmt_out tr))) = None \<and>
         (\<exists>evs. snd (snd (snd (ImageRead h p_image p_block p_fmt_in p_fmt_out tr))) =
                  tr3 @ evs @ Ev_pf_release pic #
                    (case rf of FN_video_release_buffer \<Rightarrow> picture_frees pic
                              | FN_module a \<Rightarrow> []) \<and>
                filter (releases_picture pic) evs = [] \<and>
                filter (passes_picture pic) evs = [])"
proof -
  let ?img3 = "img2\<lparr>p_dec := Some d2\<rparr>"
  let ?fs = "case rf of FN_video_release_buffer \<Rightarrow> picture_frees pic | FN_module a \<Rightarrow> []"
  have need: "ImageRead_need_filter d2 r"
    using assms(5) by (simp add: ImageRead_need_filter_def)
  have pp: "p_parent ?img3 = p_parent p_image"
    using ImageRead_decoder_frame [of h p_image p_fmt_in tr] assms(1) by simp
  have fs: "pf_release_call pic tr5 = (Inr (), tr5 @ Ev_pf_release pic # ?fs)"
    by (rule pf_release_call_exact [OF assms(9)])
  have R: "ImageRead h p_image p_block p_fmt_in p_fmt_out tr =
             (Inr None, ?img3\<lparr>p_filter := None\<rparr>, r, tr5 @ Ev_pf_release pic # ?fs)"
    using ImageRead_convert_create [OF need assms(6,7), of h pic] assms(4,8)
    by (simp add: ImageRead_picture [OF assms(1-3)] pp ImageRead_release_result fs)
  obtain evs1 where evs1: "tr4 = tr3 @ evs1" "filter (releases_picture pic) evs1 = []"
    "filter (passes_picture pic) evs1 = []"
    using ImageRead_check_filter_events [of ?img3 d2 r tr3 pic] assms(6) by auto
  obtain evs2 where evs2:
    "tr5 = tr4 @ Ev_vlc_object_create (p_parent p_image) VLC_OBJECT_FILTER # evs2"
    "filter (releases_picture pic) evs2 = []" "filter (passes_picture pic) evs2 = []"
    using CreateFilter_events [of h "p_parent p_image" "decoder_t.fmt_out d2" r tr4 pic] assms(8)
    by auto
  let ?evs = "evs1 @ Ev_vlc_object_create (p_parent p_image) VLC_OBJECT_FILTER # evs2"
  have "tr5 @ Ev_pf_release pic # ?fs = tr3 @ ?evs @ Ev_pf_release pic # ?fs"
    by (simp add: evs1(1) evs2(1))
  moreover have "filter (releases_picture pic) ?evs = []"
    and "filter (passes_picture pic) ?evs = []"
    using evs1(2,3) evs2(2,3) by simp_all
  ultimately have "\<exists>evs. tr5 @ Ev_pf_release pic # ?fs = tr3 @ evs @ Ev_pf_release pic # ?fs \<and>
                filter (releases_picture pic) evs = [] \<and>
                filter (passes_picture pic) evs = []"
    by blast
  then show ?thesis
    by (simp add: R)
qed

section \<open>Runs on the concrete host\<close>

lemma ex_no_picture_setup:
  "ImageRead_decoder ex_host_no_picture ex_image ex_fmt_in [] =
     (ex_image\<lparr>p_dec := Some ex_decoder_new\<rparr>, ex_events_created)"
  by (simp add: ImageRead_decoder_absent ex_image_def CreateDecoder_def ex_host_no_picture_def
      ex_host_def ex_decoder_def ex_decoder_new_def ex_events_created_def ex_fmt_in_def
      null_es_format_def)

lemma ex_no_picture_decode:
  "ImageRead_decode ex_host_no_picture ex_decoder_new ex_block ex_events_created =
     (None, ex_decoder_new, Some (ex_block\<lparr>i_dts := 1000, i_pts := 1000\<rparr>),
      ex_events_created @
        [Ev_mdate,
         Ev_pf_decode_video ex_decoder_new (Some (ex_block\<lparr>i_dts := 1000, i_pts := 1000\<rparr>)),
         Ev_pf_decode_video ex_decoder_new (Some (ex_block\<lparr>i_dts := 1000, i_pts := 1000\<rparr>))])"
  by (simp add: ImageRead_decode_def Let_def ex_host_no_picture_def ex_host_def)

lemma ex_setup:
  "ImageRead_decoder ex_host ex_image ex_fmt_in [] =
     (ex_image\<lparr>p_dec := Some ex_decoder_new\<rparr>, ex_events_created)"
  by (simp add: ImageRead_decoder_absent ex_image_def CreateDecoder_def
      ex_host_def ex_decoder_def ex_decoder_new_def ex_events_created_def ex_fmt_in_def
      null_es_format_def)

lemma ex_decode:
  "ImageRead_decode ex_host ex_decoder_new ex_block ex_events_created =
     (Some ex_picture, ex_decoder, None,
      ex_events_created @
        [Ev_mdate,
         Ev_pf_decode_video ex_decoder_new (Some (ex_block\<lparr>i_dts := 1000, i_pts := 1000\<rparr>)),
         Ev_pf_decode_video ex_decoder None])"
  by (simp add: ImageRead_decode_def Let_def ex_host_def ex_decoder_new_def ex_decoder_def
      null_es_format_def)

lemma ex_resolve_unset:
  "ImageRead_resolve ex_decoder ex_fmt_unset = ex_native\<lparr>i_aspect := 0\<rparr>"
  by (simp add: ImageRead_resolve_def ex_decoder_def ex_fmt_unset_def ex_native_def)

lemma ex_resolve_half:
  "ImageRead_resolve ex_decoder ex_fmt_half = ex_fmt_half"
  by (simp add: ImageRead_resolve_def ex_decoder_def ex_fmt_half_def ex_native_def)

lemma ex_keeps_codec: "decoder_keeps_codec ex_host"
  by (simp add: decoder_keeps_codec_def ex_host_def)

lemma ex_cached_setup:
  "ImageRead_decoder ex_host ex_image_cached ex_fmt_in [] = (ex_image_cached, [])"
  by (rule ImageRead_decoder_cached [of _ ex_decoder])
    (simp_all add: ex_image_cached_def ex_decoder_def ex_fmt_in_def)

lemma ex_cached_decode:
  "ImageRead_decode ex_host ex_decoder ex_block [] =
     (Some ex_picture, ex_decoder, None,
      [Ev_mdate, Ev_pf_decode_video ex_decoder (Some ex_block_stamped),
       Ev_pf_decode_video ex_decoder None])"
  by (simp add: ImageRead_decode_def Let_def ex_host_def ex_decoder_def ex_block_stamped_def)

lemma ex_no_filter_setup:
  "ImageRead_decoder ex_host_no_filter ex_image ex_fmt_in [] =
     (ex_image\<lparr>p_dec := Some ex_decoder_new\<rparr>, ex_events_created)"
  by (simp add: ImageRead_decoder_absent ex_image_def CreateDecoder_def ex_host_no_filter_def
      ex_host_def ex_decoder_def ex_decoder_new_def ex_events_created_def ex_fmt_in_def
      null_es_format_def)

lemma ex_no_filter_decode:
  "ImageRead_decode ex_host_no_filter ex_decoder_new ex_block ex_events_created =
     (Some ex_picture, ex_decoder, None,
      ex_events_created @
        [Ev_mdate, Ev_pf_decode_video ex_decoder_new (Some ex_block_stamped),
         Ev_pf_decode_video ex_decoder None])"
  by (simp add: ImageRead_decode_def Let_def ex_host_no_filter_def ex_host_def ex_decoder_new_def
      ex_decoder_def null_es_format_def ex_block_stamped_def)

lemma ex_resolve_quarter:
  "ImageRead_resolve ex_decoder ex_fmt_quarter = ex_fmt_quarter"
  by (simp add: ImageRead_resolve_def ex_decoder_def ex_fmt_quarter_def ex_native_def)

lemma ex_cached_create_quarter:
  "CreateFilter ex_host (p_parent ex_image_cached) (decoder_t.fmt_out ex_decoder) ex_fmt_quarter
     (DeleteFilter ex_filter
        [Ev_mdate, Ev_pf_decode_video ex_decoder (Some ex_block_stamped),
         Ev_pf_decode_video ex_decoder None]) =
     (Inr (Some ex_filter_quarter),
      [Ev_mdate, Ev_pf_decode_video ex_decoder (Some ex_block_stamped),
       Ev_pf_decode_video ex_decoder None,
       Ev_vlc_object_detach VLC_OBJECT_FILTER 5, Ev_module_Unneed 5 2,
       Ev_es_format_Clean (filter_t.fmt_in ex_filter),
       Ev_es_format_Clean (filter_t.fmt_out ex_filter),
       Ev_vlc_object_destroy VLC_OBJECT_FILTER 5,
       Ev_vlc_object_create 0 VLC_OBJECT_FILTER,
       Ev_vlc_object_attach VLC_OBJECT_FILTER (Some 9) 0,
       Ev_module_Need 9 ''video filter2''])"
  by (simp add: CreateFilter_def DeleteFilter_def Let_def ex_host_def ex_image_cached_def
      ex_image_def ex_filter_def ex_filter_quarter_def ex_decoder_def ex_fmt_quarter_def)



lemma ex_filter_oom_setup:
  "ImageRead_decoder ex_host_filter_oom ex_image ex_fmt_in [] =
     (ex_image\<lparr>p_dec := Some ex_decoder_new\<rparr>, ex_events_created)"
  by (simp add: ImageRead_decoder_absent ex_image_def CreateDecoder_def ex_host_filter_oom_def
      ex_host_def ex_decoder_def ex_decoder_new_def ex_events_created_def ex_fmt_in_def
      null_es_format_def)

lemma ex_filter_oom_decode:
  "ImageRead_decode ex_host_filter_oom ex_decoder_new ex_block ex_events_created =
     (Some ex_picture, ex_decoder, None,
      ex_events_created @
        [Ev_mdate, Ev_pf_decode_video ex_decoder_new (Some ex_block_stamped),
         Ev_pf_decode_video ex_decoder None])"
  by (simp add: ImageRead_decode_def Let_def ex_host_filter_oom_def ex_host_def ex_decoder_new_def
      ex_decoder_def null_es_format_def ex_block_stamped_def)

lemma ImageRead_null_filter_releases_example:
  "fst (ImageRead ex_host_no_filter ex_image ex_block ex_fmt_in ex_fmt_half []) = Inr None \<and>
   filter (releases_picture ex_picture)
     (snd (snd (snd (ImageRead ex_host_no_filter ex_image ex_block ex_fmt_in ex_fmt_half []))))
     = [Ev_pf_release ex_picture] \<and>
   (\<exists>evs. snd (snd (snd (ImageRead ex_host_no_filter ex_image ex_block ex_fmt_in ex_fmt_half [])))
            = evs @ [Ev_pf_release ex_picture, Ev_free 8, Ev_free 7])"
proof -
  let ?tr3 = "ex_events_created @
             [Ev_mdate, Ev_pf_decode_video ex_decoder_new (Some ex_block_stamped),
              Ev_pf_decode_video ex_decoder None]"
  let ?img3 = "ex_image\<lparr>p_dec := Some ex_decoder_new, p_dec := Some ex_decoder\<rparr>"
  have a: "p_dec (ex_image\<lparr>p_dec := Some ex_decoder_new\<rparr>) = Some ex_decoder_new" by simp
  have n: "i_chroma (video (decoder_t.fmt_out ex_decoder)) \<noteq> i_chroma ex_fmt_half"
    by (simp add: ex_decoder_def ex_native_def ex_fmt_half_def)
  then have n3: "i_chroma (video (decoder_t.fmt_out ex_decoder)) \<noteq> i_chroma ex_fmt_half \<or>
         i_width (video (decoder_t.fmt_out ex_decoder)) \<noteq> i_width ex_fmt_half \<or>
         i_height (video (decoder_t.fmt_out ex_decoder)) \<noteq> i_height ex_fmt_half" by simp
  have c: "ImageRead_check_filter ?img3 ex_decoder ex_fmt_half ?tr3 = (?img3, ?tr3)"
    by (rule ImageRead_check_filter_absent) (simp add: ex_image_def)
  have pf: "p_filter ?img3 = None" by (simp add: ex_image_def)
  have cf1: "fst (CreateFilter ex_host_no_filter (p_parent ex_image) (decoder_t.fmt_out ex_decoder)
                ex_fmt_half ?tr3) = Inr None"
    by (simp add: CreateFilter_def ex_host_no_filter_def ex_host_def Let_def)
  then have cf: "CreateFilter ex_host_no_filter (p_parent ex_image) (decoder_t.fmt_out ex_decoder)
                ex_fmt_half ?tr3 =
             (Inr None, snd (CreateFilter ex_host_no_filter (p_parent ex_image)
                (decoder_t.fmt_out ex_decoder) ex_fmt_half ?tr3))"
    by (simp add: prod_eq_iff)
  have rel: "pf_release ex_picture = Some FN_video_release_buffer"
    by (simp add: ex_picture_def)
  have fr: "picture_frees ex_picture = [Ev_free 8, Ev_free 7]"
    by (simp add: picture_frees_def ex_picture_def)
  have ev: "filter (releases_picture ex_picture) ex_events_created = []"
    by (simp add: ex_events_created_def)
  have "fst (ImageRead ex_host_no_filter ex_image ex_block ex_fmt_in ex_fmt_half []) = Inr None \<and>
        p_filter (fst (snd (ImageRead ex_host_no_filter ex_image ex_block ex_fmt_in ex_fmt_half [])))
          = None \<and>
        (\<exists>evs. snd (snd (snd (ImageRead ex_host_no_filter ex_image ex_block ex_fmt_in ex_fmt_half []))) =
                  ?tr3 @ evs @ Ev_pf_release ex_picture #
                    (case FN_video_release_buffer of
                       FN_video_release_buffer \<Rightarrow> picture_frees ex_picture
                     | FN_module a \<Rightarrow> []) \<and>
                filter (releases_picture ex_picture) evs = [] \<and>
                filter (passes_picture ex_picture) evs = [])"
    by (rule ImageRead_null_filter_releases [OF ex_no_filter_setup a ex_no_filter_decode
          ex_resolve_half [symmetric] n3 c pf cf rel])
  then obtain evs where E:
    "fst (ImageRead ex_host_no_filter ex_image ex_block ex_fmt_in ex_fmt_half []) = Inr None"
    "snd (snd (snd (ImageRead ex_host_no_filter ex_image ex_block ex_fmt_in ex_fmt_half []))) =
       ?tr3 @ evs @ [Ev_pf_release ex_picture, Ev_free 8, Ev_free 7]"
    "filter (releases_picture ex_picture) evs = []"
    by (auto simp: fr)
  have "snd (snd (snd (ImageRead ex_host_no_filter ex_image ex_block ex_fmt_in ex_fmt_half []))) =
       (?tr3 @ evs) @ [Ev_pf_release ex_picture, Ev_free 8, Ev_free 7]"
    by (simp add: E(2))
  then show ?thesis
    using E(1,3) ev by (simp add: E(2))
qed

section \<open>The claims\<close>

text \<open>
  In the theorems below a read call is described by its stages: \<open>ImageRead_decoder\<close>
  leaves the handler \<open>img2\<close> and the events \<open>tr2\<close>; when the decoder slot of \<open>img2\<close>
  holds a decoder \<open>d\<close>, \<open>ImageRead_decode\<close> gives the first call's picture, the decoder
  \<open>d2\<close> as the two calls left it, and the events \<open>tr3\<close>.  "The decoder's negotiated
  output format" at the later steps is \<open>video (fmt_out d2)\<close>, and \<open>r\<close> is the output
  format as resolved.
\<close>

text \<open>
  Claim C1.  In a read call whose decoder output differs from the resolved output format
  in pixel encoding, width or height, and whose handler holds a filter \<open>f\<close>: the call
  logs, after the decode calls, nothing but the call of \<open>f\<close> on the picture if and only
  if \<open>f\<close> is valid by the six-field rule of the spec.  When it is valid, \<open>f\<close> is called
  and stays in the slot as the call left it.  When it is not, \<open>f\<close> is deleted,
  \<^verbatim>\<open>CreateFilter\<close> runs on the events that deletion left, and the filter it returns is
  the one called on the picture; when it returns null the picture is released and no
  filter is called, and when it faults no filter is called.  In events: when \<open>f\<close> is not
  valid, the events after the decode calls begin with events that destroy the object of
  \<open>f\<close> (once), create no filter and call none; then a filter object is created, once;
  and after that creation the only call of a filter, if any, is the call of the filter
  \<^verbatim>\<open>CreateFilter\<close> returned on the picture.
\<close>

theorem ImageRead_filter_reuse:
  assumes "ImageRead_decoder h p_image p_fmt_in tr = (img2, tr2)" and "p_dec img2 = Some d"
    and "ImageRead_decode h d p_block tr2 = (Some pic, d2, pb, tr3)"
    and "r = ImageRead_resolve d2 p_fmt_out"
    and "i_chroma (video (decoder_t.fmt_out d2)) \<noteq> i_chroma r \<or>
         i_width (video (decoder_t.fmt_out d2)) \<noteq> i_width r \<or>
         i_height (video (decoder_t.fmt_out d2)) \<noteq> i_height r"
    and "p_filter p_image = Some f"
    and "img3 = img2\<lparr>p_dec := Some d2\<rparr>"
  shows "(snd (snd (snd (ImageRead h p_image p_block p_fmt_in p_fmt_out tr))) =
            tr3 @ [Ev_pf_video_filter f pic] \<longleftrightarrow>
          spec_transform_binding_valid f (video (decoder_t.fmt_out d2)) r) \<and>
         (spec_transform_binding_valid f (video (decoder_t.fmt_out d2)) r \<longrightarrow>
            ImageRead h p_image p_block p_fmt_in p_fmt_out tr =
              (Inr (fst (pf_video_filter h tr3 f pic)),
               img3\<lparr>p_filter := Some (snd (pf_video_filter h tr3 f pic))\<rparr>,
               video (filter_t.fmt_out (snd (pf_video_filter h tr3 f pic))),
               tr3 @ [Ev_pf_video_filter f pic])) \<and>
         (\<not> spec_transform_binding_valid f (video (decoder_t.fmt_out d2)) r \<longrightarrow>
            ImageRead h p_image p_block p_fmt_in p_fmt_out tr =
              (case CreateFilter h (p_parent p_image) (decoder_t.fmt_out d2) r
                      (DeleteFilter f tr3) of
                 (Inl e, tr5) \<Rightarrow> (Inl e, img3\<lparr>p_filter := None\<rparr>, r, tr5)
               | (Inr None, tr5) \<Rightarrow> ImageRead_release (img3\<lparr>p_filter := None\<rparr>) pic r tr5
               | (Inr (Some g), tr5) \<Rightarrow>
                   (Inr (fst (pf_video_filter h tr5 g pic)),
                    img3\<lparr>p_filter := Some (snd (pf_video_filter h tr5 g pic))\<rparr>,
                    video (filter_t.fmt_out (snd (pf_video_filter h tr5 g pic))),
                    tr5 @ [Ev_pf_video_filter g pic]))) \<and>
         (\<not> spec_transform_binding_valid f (video (decoder_t.fmt_out d2)) r \<longrightarrow>
            (\<exists>evs0 evs.
               snd (snd (snd (ImageRead h p_image p_block p_fmt_in p_fmt_out tr))) =
                 tr3 @ evs0 @ Ev_vlc_object_create (p_parent p_image) VLC_OBJECT_FILTER # evs \<and>
               filter is_filter_destroy evs0 =
                 [Ev_vlc_object_destroy VLC_OBJECT_FILTER (filter_addr f)] \<and>
               filter is_filter_create evs0 = [] \<and>
               filter is_filter_call evs0 = [] \<and>
               filter is_filter_create evs = [] \<and>
               filter is_filter_call evs =
                 (case fst (CreateFilter h (p_parent p_image) (decoder_t.fmt_out d2) r
                              (DeleteFilter f tr3)) of
                    Inr (Some g) \<Rightarrow> [Ev_pf_video_filter g pic]
                  | _ \<Rightarrow> [])))"
proof -
  define six where "six = spec_transform_binding_valid f (video (decoder_t.fmt_out d2)) r"
  have need: "ImageRead_need_filter d2 r"
    using assms(5) by (simp add: ImageRead_need_filter_def)
  have fr: "p_parent img3 = p_parent p_image" "p_filter img3 = Some f"
    using ImageRead_decoder_frame [of h p_image p_fmt_in tr] assms(1,6,7) by simp_all
  have stale: "ImageRead_filter_stale f d2 r \<longleftrightarrow> \<not> six"
    by (auto simp: six_def ImageRead_filter_stale_def spec_transform_binding_valid_def)
  have R: "ImageRead h p_image p_block p_fmt_in p_fmt_out tr = ImageRead_convert h img3 d2 pic r tr3"
    using ImageRead_picture [OF assms(1-3)] assms(4,7) by simp
  show ?thesis
  proof (cases six)
    case True
    then have "\<not> ImageRead_filter_stale f d2 r" using stale by simp
    then show ?thesis
      using True
      by (simp add: R ImageRead_convert_reuse [OF need fr(2)] ImageRead_filter_result
          six_def [symmetric])
  next
    case False
    then have st: "ImageRead_filter_stale f d2 r" using stale by simp
    have c: "ImageRead_check_filter img3 d2 r tr3 = (img3\<lparr>p_filter := None\<rparr>, DeleteFilter f tr3)"
      by (rule ImageRead_check_filter_stale [OF fr(2) st])
    let ?CF = "CreateFilter h (p_parent p_image) (decoder_t.fmt_out d2) r (DeleteFilter f tr3)"
    have C: "ImageRead_convert h img3 d2 pic r tr3 =
              (case ?CF of
                 (Inl e, tr5) \<Rightarrow> (Inl e, img3\<lparr>p_filter := None\<rparr>, r, tr5)
               | (Inr None, tr5) \<Rightarrow> ImageRead_release (img3\<lparr>p_filter := None\<rparr>) pic r tr5
               | (Inr (Some g), tr5) \<Rightarrow>
                   (Inr (fst (pf_video_filter h tr5 g pic)),
                    img3\<lparr>p_filter := Some (snd (pf_video_filter h tr5 g pic))\<rparr>,
                    video (filter_t.fmt_out (snd (pf_video_filter h tr5 g pic))),
                    tr5 @ [Ev_pf_video_filter g pic]))"
      using ImageRead_convert_create [OF need c, of h pic]
      by (simp add: fr ImageRead_filter_result split: prod.splits sum.splits option.splits)
    obtain x tr5 where cf: "?CF = (x, tr5)"
      by (cases ?CF)
    obtain evs0 where evs0: "DeleteFilter f tr3 = tr3 @ evs0"
      "filter is_filter_destroy evs0 = [Ev_vlc_object_destroy VLC_OBJECT_FILTER (filter_addr f)]"
      "filter is_filter_create evs0 = []" "filter is_filter_call evs0 = []"
      using DeleteFilter_destroys [of f tr3] by blast
    obtain evs2 where evs2:
      "tr5 = DeleteFilter f tr3 @ Ev_vlc_object_create (p_parent p_image) VLC_OBJECT_FILTER # evs2"
      "filter is_filter_create evs2 = []" "filter is_filter_call evs2 = []"
      using CreateFilter_calls_no_filter [of h "p_parent p_image" "decoder_t.fmt_out d2" r
          "DeleteFilter f tr3"] cf by auto
    obtain evs3 where evs3: "snd (pf_release_call pic tr5) = tr5 @ evs3"
      "filter is_filter_create evs3 = []" "filter is_filter_call evs3 = []"
      using pf_release_call_no_filter [of pic tr5] by blast
    define tail where "tail =
      (case x of Inl e \<Rightarrow> [] | Inr None \<Rightarrow> evs3 | Inr (Some g) \<Rightarrow> [Ev_pf_video_filter g pic])"
    have T: "snd (snd (snd (ImageRead_convert h img3 d2 pic r tr3))) = tr5 @ tail"
      by (simp add: C cf ImageRead_release_result evs3(1) tail_def
          split: sum.splits option.splits)
    have tail: "filter is_filter_create tail = []"
      "filter is_filter_call tail =
         (case x of Inr (Some g) \<Rightarrow> [Ev_pf_video_filter g pic] | _ \<Rightarrow> [])"
      using evs3(2,3) by (auto simp: tail_def split: sum.splits option.splits)
    have D: "snd (snd (snd (ImageRead_convert h img3 d2 pic r tr3))) =
               tr3 @ evs0 @ Ev_vlc_object_create (p_parent p_image) VLC_OBJECT_FILTER
                 # (evs2 @ tail)"
      by (simp add: T evs2(1)) (simp add: evs0(1))
    have E: "filter is_filter_create (evs2 @ tail) = []"
      "filter is_filter_call (evs2 @ tail) =
         (case fst ?CF of Inr (Some g) \<Rightarrow> [Ev_pf_video_filter g pic] | _ \<Rightarrow> [])"
      using evs2(2,3) tail by (simp_all add: cf)
    have ex: "\<exists>evs0 evs.
               snd (snd (snd (ImageRead_convert h img3 d2 pic r tr3))) =
                 tr3 @ evs0 @ Ev_vlc_object_create (p_parent p_image) VLC_OBJECT_FILTER # evs \<and>
               filter is_filter_destroy evs0 =
                 [Ev_vlc_object_destroy VLC_OBJECT_FILTER (filter_addr f)] \<and>
               filter is_filter_create evs0 = [] \<and>
               filter is_filter_call evs0 = [] \<and>
               filter is_filter_create evs = [] \<and>
               filter is_filter_call evs =
                 (case fst ?CF of Inr (Some g) \<Rightarrow> [Ev_pf_video_filter g pic] | _ \<Rightarrow> [])"
      using D E evs0(2-4) by blast
    have ne: "snd (snd (snd (ImageRead_convert h img3 d2 pic r tr3))) \<noteq>
            tr3 @ [Ev_pf_video_filter f pic]"
    proof
      assume "snd (snd (snd (ImageRead_convert h img3 d2 pic r tr3))) =
                tr3 @ [Ev_pf_video_filter f pic]"
      then have "evs0 @ Ev_vlc_object_create (p_parent p_image) VLC_OBJECT_FILTER # (evs2 @ tail)
                   = [Ev_pf_video_filter f pic]"
        using D by simp
      then have "filter is_filter_destroy
                   (evs0 @ Ev_vlc_object_create (p_parent p_image) VLC_OBJECT_FILTER # (evs2 @ tail))
                   = filter is_filter_destroy [Ev_pf_video_filter f pic]"
        by simp
      then show False using evs0(2) by simp
    qed
    show ?thesis
      using False ne ex by (simp add: R C six_def [symmetric])
  qed
qed

theorem ImageRead_filter_reuse_witness:
  "ImageRead_decoder ex_host ex_image_cached ex_fmt_in [] = (ex_image_cached, []) \<and>
   p_dec ex_image_cached = Some ex_decoder \<and>
   p_filter ex_image_cached = Some ex_filter \<and>
   fst (ImageRead_decode ex_host ex_decoder ex_block []) = Some ex_picture \<and>
   i_chroma (video (decoder_t.fmt_out ex_decoder)) \<noteq> i_chroma (ImageRead_resolve ex_decoder ex_fmt_half) \<and>
   spec_transform_binding_valid ex_filter (video (decoder_t.fmt_out ex_decoder))
     (ImageRead_resolve ex_decoder ex_fmt_half) \<and>
   snd (snd (snd (ImageRead ex_host ex_image_cached ex_block ex_fmt_in ex_fmt_half []))) =
     [Ev_mdate, Ev_pf_decode_video ex_decoder (Some ex_block_stamped),
      Ev_pf_decode_video ex_decoder None, Ev_pf_video_filter ex_filter ex_picture] \<and>
   i_chroma (video (decoder_t.fmt_out ex_decoder)) \<noteq> i_chroma (ImageRead_resolve ex_decoder ex_fmt_quarter) \<and>
   \<not> spec_transform_binding_valid ex_filter (video (decoder_t.fmt_out ex_decoder))
     (ImageRead_resolve ex_decoder ex_fmt_quarter) \<and>
   snd (snd (snd (ImageRead ex_host ex_image_cached ex_block ex_fmt_in ex_fmt_quarter []))) =
     [Ev_mdate, Ev_pf_decode_video ex_decoder (Some ex_block_stamped),
      Ev_pf_decode_video ex_decoder None,
      Ev_vlc_object_detach VLC_OBJECT_FILTER 5, Ev_module_Unneed 5 2,
      Ev_es_format_Clean (filter_t.fmt_in ex_filter),
      Ev_es_format_Clean (filter_t.fmt_out ex_filter),
      Ev_vlc_object_destroy VLC_OBJECT_FILTER 5,
      Ev_vlc_object_create 0 VLC_OBJECT_FILTER,
      Ev_vlc_object_attach VLC_OBJECT_FILTER (Some 9) 0,
      Ev_module_Need 9 ''video filter2'',
      Ev_pf_video_filter ex_filter_quarter ex_picture]"
proof -
  have a: "p_dec ex_image_cached = Some ex_decoder" and f: "p_filter ex_image_cached = Some ex_filter"
    by (simp_all add: ex_image_cached_def)
  have n: "i_chroma (video (decoder_t.fmt_out ex_decoder)) \<noteq> i_chroma ex_fmt_half"
    by (simp add: ex_decoder_def ex_native_def ex_fmt_half_def)
  then have n3: "i_chroma (video (decoder_t.fmt_out ex_decoder)) \<noteq> i_chroma ex_fmt_half \<or>
         i_width (video (decoder_t.fmt_out ex_decoder)) \<noteq> i_width ex_fmt_half \<or>
         i_height (video (decoder_t.fmt_out ex_decoder)) \<noteq> i_height ex_fmt_half" by simp
  have six: "spec_transform_binding_valid ex_filter (video (decoder_t.fmt_out ex_decoder))
               ex_fmt_half"
    by (simp add: spec_transform_binding_valid_def ex_filter_def ex_decoder_def)
  have q: "i_chroma (video (decoder_t.fmt_out ex_decoder)) \<noteq> i_chroma ex_fmt_quarter"
    by (simp add: ex_decoder_def ex_native_def ex_fmt_quarter_def)
  then have q3: "i_chroma (video (decoder_t.fmt_out ex_decoder)) \<noteq> i_chroma ex_fmt_quarter \<or>
         i_width (video (decoder_t.fmt_out ex_decoder)) \<noteq> i_width ex_fmt_quarter \<or>
         i_height (video (decoder_t.fmt_out ex_decoder)) \<noteq> i_height ex_fmt_quarter" by simp
  have stale: "\<not> spec_transform_binding_valid ex_filter (video (decoder_t.fmt_out ex_decoder))
               ex_fmt_quarter"
    by (simp add: spec_transform_binding_valid_def ex_filter_def ex_fmt_half_def ex_fmt_quarter_def)
  have reuse: "snd (snd (snd (ImageRead ex_host ex_image_cached ex_block ex_fmt_in ex_fmt_half []))) =
     [Ev_mdate, Ev_pf_decode_video ex_decoder (Some ex_block_stamped),
      Ev_pf_decode_video ex_decoder None, Ev_pf_video_filter ex_filter ex_picture]"
    using ImageRead_filter_reuse [OF ex_cached_setup a ex_cached_decode ex_resolve_half [symmetric]
        n3 f refl] six
    by simp
  have recreate: "snd (snd (snd (ImageRead ex_host ex_image_cached ex_block ex_fmt_in ex_fmt_quarter []))) =
     [Ev_mdate, Ev_pf_decode_video ex_decoder (Some ex_block_stamped),
      Ev_pf_decode_video ex_decoder None,
      Ev_vlc_object_detach VLC_OBJECT_FILTER 5, Ev_module_Unneed 5 2,
      Ev_es_format_Clean (filter_t.fmt_in ex_filter),
      Ev_es_format_Clean (filter_t.fmt_out ex_filter),
      Ev_vlc_object_destroy VLC_OBJECT_FILTER 5,
      Ev_vlc_object_create 0 VLC_OBJECT_FILTER,
      Ev_vlc_object_attach VLC_OBJECT_FILTER (Some 9) 0,
      Ev_module_Need 9 ''video filter2'',
      Ev_pf_video_filter ex_filter_quarter ex_picture]"
    using ImageRead_filter_reuse [OF ex_cached_setup a ex_cached_decode
        ex_resolve_quarter [symmetric] q3 f refl,
        THEN conjunct2, THEN conjunct2, THEN conjunct1] stale
    by (simp add: ex_cached_create_quarter)
  show ?thesis
    using a f n six q stale reuse recreate
    by (simp add: ex_cached_setup ex_cached_decode ex_resolve_half ex_resolve_quarter)
qed




text \<open>
  Claim C3.  After a decode that gave a picture, the read goes on with the output format
  \<open>r\<close> in which each of pixel encoding, width and height is the decoder's value when the
  caller's was zero, and the caller's value otherwise; the aspect is the caller's.
\<close>

theorem ImageRead_resolve_first_writer:
  assumes "ImageRead_decoder h p_image p_fmt_in tr = (img2, tr2)" and "p_dec img2 = Some d"
    and "ImageRead_decode h d p_block tr2 = (Some pic, d2, pb, tr3)"
    and "r = ImageRead_resolve d2 p_fmt_out"
  shows "ImageRead h p_image p_block p_fmt_in p_fmt_out tr =
           ImageRead_convert h (img2\<lparr>p_dec := Some d2\<rparr>) d2 pic r tr3 \<and>
         i_chroma r = (if i_chroma p_fmt_out = 0 then i_chroma (video (decoder_t.fmt_out d2))
                       else i_chroma p_fmt_out) \<and>
         i_width r = (if i_width p_fmt_out = 0 then i_width (video (decoder_t.fmt_out d2))
                      else i_width p_fmt_out) \<and>
         i_height r = (if i_height p_fmt_out = 0 then i_height (video (decoder_t.fmt_out d2))
                       else i_height p_fmt_out) \<and>
         i_aspect r = i_aspect p_fmt_out"
  using ImageRead_picture [OF assms(1-3)] assms(4)
  by (simp add: ImageRead_resolve_def Let_def)

theorem ImageRead_resolve_first_writer_witness:
  "ImageRead_decoder ex_host ex_image ex_fmt_in [] =
     (ex_image\<lparr>p_dec := Some ex_decoder_new\<rparr>, ex_events_created) \<and>
   fst (ImageRead_decode ex_host ex_decoder_new ex_block ex_events_created) = Some ex_picture \<and>
   ImageRead_resolve ex_decoder ex_fmt_wide =
     \<lparr>i_chroma = 0x30323449, i_aspect = 7, i_width = 50, i_height = 100\<rparr>"
proof -
  have a: "p_dec (ex_image\<lparr>p_dec := Some ex_decoder_new\<rparr>) = Some ex_decoder_new" by simp
  show ?thesis
    using ImageRead_resolve_first_writer [OF ex_setup a ex_decode refl, of ex_fmt_wide]
    by (simp add: ex_setup ex_decode ex_fmt_wide_def ex_decoder_def ex_native_def Let_def
        video_format_t.equality)
qed

text \<open>
  Claim C4.  When, after resolution, the decoder's output format equals the resolved
  output format in pixel encoding, width and height, the read returns the decoder's
  picture itself, writes the decoder's output format back as the result format, logs
  no event after the two decode calls, and leaves the filter slot of the handler as it
  was: no filter object is created and no filter is called in the whole call.
\<close>

theorem ImageRead_transform_skip:
  assumes "ImageRead_decoder h p_image p_fmt_in tr = (img2, tr2)" and "p_dec img2 = Some d"
    and "ImageRead_decode h d p_block tr2 = (Some pic, d2, pb, tr3)"
    and "r = ImageRead_resolve d2 p_fmt_out"
    and "i_chroma (video (decoder_t.fmt_out d2)) = i_chroma r"
    and "i_width (video (decoder_t.fmt_out d2)) = i_width r"
    and "i_height (video (decoder_t.fmt_out d2)) = i_height r"
  shows "ImageRead h p_image p_block p_fmt_in p_fmt_out tr =
           (Inr (Some pic), img2\<lparr>p_dec := Some d2\<rparr>, video (decoder_t.fmt_out d2), tr3) \<and>
         p_filter (img2\<lparr>p_dec := Some d2\<rparr>) = p_filter p_image \<and>
         (\<exists>evs. tr3 = tr @ evs \<and> filter is_filter_create evs = [] \<and>
                filter is_filter_call evs = [])"
proof -
  have "\<not> ImageRead_need_filter d2 (ImageRead_resolve d2 p_fmt_out)"
    using assms(4-7) by (simp add: ImageRead_need_filter_def)
  then have R: "ImageRead h p_image p_block p_fmt_in p_fmt_out tr =
           (Inr (Some pic), img2\<lparr>p_dec := Some d2\<rparr>, video (decoder_t.fmt_out d2), tr3)"
    by (simp add: ImageRead_picture [OF assms(1-3)] ImageRead_convert_skip)
  have pf: "p_filter img2 = p_filter p_image"
    using ImageRead_decoder_frame [of h p_image p_fmt_in tr] assms(1) by simp
  obtain evs1 where evs1: "tr2 = tr @ evs1" "filter is_filter_create evs1 = []"
    "filter is_filter_call evs1 = []"
    using ImageRead_decoder_events [of h p_image p_fmt_in tr] assms(1) by auto
  obtain d1 pb1 where evs2:
    "tr3 = tr2 @ [Ev_mdate,
                  Ev_pf_decode_video d
                    (Some (p_block\<lparr>i_dts := mdate h tr2, i_pts := mdate h tr2\<rparr>)),
                  Ev_pf_decode_video d1 pb1]"
    using ImageRead_decode_events [of h d p_block tr2] assms(3) by auto
  have "\<exists>evs. tr3 = tr @ evs \<and> filter is_filter_create evs = [] \<and> filter is_filter_call evs = []"
    using evs1 by (simp add: evs2)
  then show ?thesis
    using R pf by simp
qed

theorem ImageRead_transform_skip_witness:
  "ImageRead_decoder ex_host ex_image ex_fmt_in [] =
     (ex_image\<lparr>p_dec := Some ex_decoder_new\<rparr>, ex_events_created) \<and>
   fst (ImageRead_decode ex_host ex_decoder_new ex_block ex_events_created) = Some ex_picture \<and>
   i_chroma (video (decoder_t.fmt_out ex_decoder)) = i_chroma (ImageRead_resolve ex_decoder ex_fmt_unset) \<and>
   i_width (video (decoder_t.fmt_out ex_decoder)) = i_width (ImageRead_resolve ex_decoder ex_fmt_unset) \<and>
   i_height (video (decoder_t.fmt_out ex_decoder)) = i_height (ImageRead_resolve ex_decoder ex_fmt_unset) \<and>
   ImageRead ex_host ex_image ex_block ex_fmt_in ex_fmt_unset [] =
     (Inr (Some ex_picture), ex_image\<lparr>p_dec := Some ex_decoder\<rparr>, ex_native,
      ex_events_created @
        [Ev_mdate,
         Ev_pf_decode_video ex_decoder_new (Some (ex_block\<lparr>i_dts := 1000, i_pts := 1000\<rparr>)),
         Ev_pf_decode_video ex_decoder None])"
proof -
  have a: "p_dec (ex_image\<lparr>p_dec := Some ex_decoder_new\<rparr>) = Some ex_decoder_new" by simp
  have c: "i_chroma (video (decoder_t.fmt_out ex_decoder)) = i_chroma (ex_native\<lparr>i_aspect := 0\<rparr>)"
    and w: "i_width (video (decoder_t.fmt_out ex_decoder)) = i_width (ex_native\<lparr>i_aspect := 0\<rparr>)"
    and h: "i_height (video (decoder_t.fmt_out ex_decoder)) = i_height (ex_native\<lparr>i_aspect := 0\<rparr>)"
    by (simp_all add: ex_decoder_def)
  show ?thesis
    using ImageRead_transform_skip [OF ex_setup a ex_decode ex_resolve_unset [symmetric] c w h]
    by (simp add: ex_setup ex_decode ex_resolve_unset) (simp add: ex_decoder_def)
qed

text \<open>
  Claim C5, at a concrete input where the code does not do what the claim says.  The
  host creates the decoder object and refuses the filter object, as it may when memory
  is short (\<^verbatim>\<open>CreateDecoder\<close> checks for it and reports "out of memory").  The decode
  gives a picture that carries \<^verbatim>\<open>video_release_buffer\<close>, and a filter is needed.
  \<^verbatim>\<open>CreateFilter\<close> does not check the null object: it passes it to
  \<^verbatim>\<open>vlc_object_attach\<close> and writes through it.  The read faults, and none of its events
  releases the picture.  Where \<^verbatim>\<open>CreateFilter\<close> returns null instead, the picture is
  released once and freed (lemma \<open>ImageRead_null_filter_releases\<close>).
\<close>

theorem ImageRead_filter_oom_leaks:
  "fst (ImageRead_decode ex_host_filter_oom ex_decoder_new ex_block ex_events_created)
     = Some ex_picture \<and>
   pf_release ex_picture = Some FN_video_release_buffer \<and>
   i_chroma (video (decoder_t.fmt_out ex_decoder))
     \<noteq> i_chroma (ImageRead_resolve ex_decoder ex_fmt_half) \<and>
   ImageRead ex_host_filter_oom ex_image ex_block ex_fmt_in ex_fmt_half [] =
     (Inl NULL_dereference, ex_image\<lparr>p_dec := Some ex_decoder\<rparr>, ex_fmt_half,
      ex_events_created @
        [Ev_mdate, Ev_pf_decode_video ex_decoder_new (Some ex_block_stamped),
         Ev_pf_decode_video ex_decoder None,
         Ev_vlc_object_create 0 VLC_OBJECT_FILTER,
         Ev_vlc_object_attach VLC_OBJECT_FILTER None 0]) \<and>
   filter (releases_picture ex_picture)
     (snd (snd (snd (ImageRead ex_host_filter_oom ex_image ex_block ex_fmt_in ex_fmt_half []))))
     = []"
proof -
  let ?tr3 = "ex_events_created @
        [Ev_mdate, Ev_pf_decode_video ex_decoder_new (Some ex_block_stamped),
         Ev_pf_decode_video ex_decoder None]"
  let ?img3 = "ex_image\<lparr>p_dec := Some ex_decoder_new, p_dec := Some ex_decoder\<rparr>"
  have a: "p_dec (ex_image\<lparr>p_dec := Some ex_decoder_new\<rparr>) = Some ex_decoder_new" by simp
  have need: "ImageRead_need_filter ex_decoder ex_fmt_half"
    by (simp add: ImageRead_need_filter_def ex_decoder_def ex_native_def ex_fmt_half_def)
  have c: "ImageRead_check_filter ?img3 ex_decoder ex_fmt_half ?tr3 = (?img3, ?tr3)"
    by (rule ImageRead_check_filter_absent) (simp add: ex_image_def)
  have pf: "p_filter ?img3 = None" by (simp add: ex_image_def)
  have cf: "CreateFilter ex_host_filter_oom (p_parent ex_image) (decoder_t.fmt_out ex_decoder)
              ex_fmt_half ?tr3 =
            (Inl NULL_dereference,
             ?tr3 @ [Ev_vlc_object_create 0 VLC_OBJECT_FILTER,
                     Ev_vlc_object_attach VLC_OBJECT_FILTER None 0])"
    by (simp add: CreateFilter_def ex_host_filter_oom_def ex_host_def ex_image_def)
  have R: "ImageRead ex_host_filter_oom ex_image ex_block ex_fmt_in ex_fmt_half [] =
     (Inl NULL_dereference, ex_image\<lparr>p_dec := Some ex_decoder\<rparr>, ex_fmt_half,
      ?tr3 @ [Ev_vlc_object_create 0 VLC_OBJECT_FILTER,
              Ev_vlc_object_attach VLC_OBJECT_FILTER None 0])"
    using ImageRead_convert_create [OF need c pf, of ex_host_filter_oom ex_picture]
    by (simp add: ImageRead_picture [OF ex_filter_oom_setup a ex_filter_oom_decode]
        ex_resolve_half cf) (simp add: ex_image_def)
  have rel: "pf_release ex_picture = Some FN_video_release_buffer"
    by (simp add: ex_picture_def)
  have nr: "filter (releases_picture ex_picture)
              (?tr3 @ [Ev_vlc_object_create 0 VLC_OBJECT_FILTER,
                       Ev_vlc_object_attach VLC_OBJECT_FILTER None 0]) = []"
    by (simp add: ex_events_created_def)
  have n: "i_chroma (video (decoder_t.fmt_out ex_decoder)) \<noteq> i_chroma ex_fmt_half"
    by (simp add: ex_decoder_def ex_native_def ex_fmt_half_def)
  show ?thesis
    using n rel nr by (simp add: R ex_filter_oom_decode ex_resolve_half)
qed

text \<open>
  Claim C6.  When the first decode call gives no picture, the read returns null with
  no fault, no \<^verbatim>\<open>msg_Err\<close> is logged anywhere in the call, the decoder stays in the
  handler's slot, and nothing logged after the decoder slot was settled destroys a
  decoder; the last event is the debug message "no image decoded".
\<close>

theorem ImageRead_no_picture_no_error:
  assumes "ImageRead_decoder h p_image p_fmt_in tr = (img2, tr2)" and "p_dec img2 = Some d"
    and "ImageRead_decode h d p_block tr2 = (None, d2, pb, tr3)"
  shows "fst (ImageRead h p_image p_block p_fmt_in p_fmt_out tr) = Inr None \<and>
         p_dec (fst (snd (ImageRead h p_image p_block p_fmt_in p_fmt_out tr))) = Some d2 \<and>
         (\<exists>evs. snd (snd (snd (ImageRead h p_image p_block p_fmt_in p_fmt_out tr))) = tr @ evs \<and>
                filter is_msg_Err evs = []) \<and>
         (\<exists>evs. snd (snd (snd (ImageRead h p_image p_block p_fmt_in p_fmt_out tr))) = tr2 @ evs \<and>
                filter is_decoder_destroy evs = [] \<and>
                last evs = Ev_msg_Dbg (p_parent p_image) Msg_no_image_decoded)"
proof -
  have R: "ImageRead h p_image p_block p_fmt_in p_fmt_out tr =
             (Inr None, img2\<lparr>p_dec := Some d2\<rparr>, p_fmt_out,
              tr3 @ [Ev_msg_Dbg (p_parent img2) Msg_no_image_decoded])"
    by (rule ImageRead_no_picture [OF assms])
  have pp: "p_parent img2 = p_parent p_image"
    using ImageRead_decoder_frame [of h p_image p_fmt_in tr] assms(1) by simp
  obtain evs1 where evs1: "tr2 = tr @ evs1" "filter is_msg_Err evs1 = []"
    using ImageRead_decoder_events [of h p_image p_fmt_in tr] assms(1,2) by auto
  obtain d1 pb1 where evs2:
    "tr3 = tr2 @ [Ev_mdate,
                  Ev_pf_decode_video d
                    (Some (p_block\<lparr>i_dts := mdate h tr2, i_pts := mdate h tr2\<rparr>)),
                  Ev_pf_decode_video d1 pb1]"
    using ImageRead_decode_events [of h d p_block tr2] assms(3) by auto
  show ?thesis
    by (simp add: R pp evs2) (simp add: evs1)
qed

theorem ImageRead_no_picture_no_error_witness:
  "ImageRead_decoder ex_host_no_picture ex_image ex_fmt_in [] =
     (ex_image\<lparr>p_dec := Some ex_decoder_new\<rparr>, ex_events_created) \<and>
   fst (ImageRead_decode ex_host_no_picture ex_decoder_new ex_block ex_events_created) = None \<and>
   fst (ImageRead ex_host_no_picture ex_image ex_block ex_fmt_in ex_fmt_half []) = Inr None \<and>
   p_dec (fst (snd (ImageRead ex_host_no_picture ex_image ex_block ex_fmt_in ex_fmt_half [])))
     = Some ex_decoder_new"
proof -
  have a: "p_dec (ex_image\<lparr>p_dec := Some ex_decoder_new\<rparr>) = Some ex_decoder_new" by simp
  show ?thesis
    using ImageRead_no_picture_no_error [OF ex_no_picture_setup a ex_no_picture_decode,
        of ex_fmt_half]
    by (simp add: ex_no_picture_setup ex_no_picture_decode)
qed



text \<open>
  Claim C8, as stated, at a concrete input: \<^verbatim>\<open>ImageWrite\<close> returns the null pointer
  and logs nothing.
\<close>

theorem ImageWrite_null_counterexample:
  "ImageWrite ex_image ex_picture ex_native ex_fmt_half [] = (None, [])"
  by (simp add: ImageWrite_def)

text \<open>
  Claim C8, amended.  For all arguments \<^verbatim>\<open>ImageWrite\<close> returns the null pointer and
  \<^verbatim>\<open>ImageWriteUrl\<close> returns \<^verbatim>\<open>VLC_EGENERIC\<close>; neither calls into the host.
\<close>

theorem ImageWrite_stubs:
  "ImageWrite p_image p_pic p_fmt_in p_fmt_out tr = (None, tr) \<and>
   ImageWriteUrl p_image p_pic p_fmt_in p_fmt_out psz_url tr = (VLC_EGENERIC, tr)"
  by (simp add: ImageWrite_def ImageWriteUrl_def)

text \<open>
  Claim C9, as stated, at concrete inputs: a decoder, and a filter, whose output chroma
  is zero and whose output codec is not comes back from \<^verbatim>\<open>video_new_buffer\<close> changed.
\<close>

theorem video_new_buffer_rewrites_chroma_counterexample:
  "fst (snd (video_new_buffer ex_host ex_decoder_unset [])) \<noteq> ex_decoder_unset \<and>
   i_chroma (video (decoder_t.fmt_out ex_decoder_unset)) = 0 \<and>
   i_chroma (video (decoder_t.fmt_out (fst (snd (video_new_buffer ex_host ex_decoder_unset [])))))
     = 0x30323449 \<and>
   fst (snd (video_new_buffer_filter ex_host ex_filter_unset [])) \<noteq> ex_filter_unset \<and>
   i_chroma (video (filter_t.fmt_out ex_filter_unset)) = 0 \<and>
   i_chroma (video (filter_t.fmt_out
      (fst (snd (video_new_buffer_filter ex_host ex_filter_unset []))))) = 0x32595559"
proof -
  have d0: "i_chroma (video (decoder_t.fmt_out ex_decoder_unset)) = 0"
    by (simp add: ex_decoder_unset_def ex_fmt_unset_def)
  have d1:
    "i_chroma (video (decoder_t.fmt_out (fst (snd (video_new_buffer ex_host ex_decoder_unset [])))))
       = 0x30323449"
    by (simp add: video_new_buffer_def Let_def ex_decoder_unset_def ex_decoder_def ex_host_def
        ex_fmt_unset_def split: option.splits)
  have f0: "i_chroma (video (filter_t.fmt_out ex_filter_unset)) = 0"
    by (simp add: ex_filter_unset_def ex_fmt_unset_def)
  have f1:
    "i_chroma (video (filter_t.fmt_out
        (fst (snd (video_new_buffer_filter ex_host ex_filter_unset []))))) = 0x32595559"
    by (simp add: video_new_buffer_filter_def Let_def ex_filter_unset_def ex_filter_def ex_host_def
        ex_fmt_unset_def split: option.splits)
  from d0 d1 have "fst (snd (video_new_buffer ex_host ex_decoder_unset [])) \<noteq> ex_decoder_unset"
    by auto
  moreover from f0 f1
  have "fst (snd (video_new_buffer_filter ex_host ex_filter_unset [])) \<noteq> ex_filter_unset"
    by auto
  ultimately show ?thesis using d0 d1 f0 f1 by simp
qed

text \<open>
  Claim C9, amended.  \<^verbatim>\<open>video_new_buffer\<close>, called by a decoder or by a filter, leaves
  every field of the engine as it was but the chroma of its output video format, which
  becomes its output codec; the events it logs are events of the heap only.
\<close>

theorem video_new_buffer_frame:
  "fst (snd (video_new_buffer h dec tr)) =
     dec\<lparr>decoder_t.fmt_out :=
           (decoder_t.fmt_out dec)\<lparr>video :=
              (video (decoder_t.fmt_out dec))\<lparr>i_chroma := i_codec (decoder_t.fmt_out dec)\<rparr>\<rparr>\<rparr> \<and>
   (\<exists>evs. snd (snd (video_new_buffer h dec tr)) = tr @ evs \<and> list_all is_heap_event evs) \<and>
   fst (snd (video_new_buffer_filter h flt tr)) =
     flt\<lparr>filter_t.fmt_out :=
           (filter_t.fmt_out flt)\<lparr>video :=
              (video (filter_t.fmt_out flt))\<lparr>i_chroma := i_codec (filter_t.fmt_out flt)\<rparr>\<rparr>\<rparr> \<and>
   (\<exists>evs. snd (snd (video_new_buffer_filter h flt tr)) = tr @ evs \<and> list_all is_heap_event evs)"
  by (simp add: video_new_buffer_def video_new_buffer_filter_def Let_def split: option.splits)

text \<open>
  Claim C10.  When the first decode call gives no picture, the caller's output format
  is, after the read, exactly what it was before.
\<close>

theorem ImageRead_no_picture_fmt_out:
  assumes "ImageRead_decoder h p_image p_fmt_in tr = (img2, tr2)" and "p_dec img2 = Some d"
    and "fst (ImageRead_decode h d p_block tr2) = None"
  shows "fst (snd (snd (ImageRead h p_image p_block p_fmt_in p_fmt_out tr))) = p_fmt_out"
proof -
  obtain d2 pb tr3 where "ImageRead_decode h d p_block tr2 = (None, d2, pb, tr3)"
    using assms(3) by (cases "ImageRead_decode h d p_block tr2") auto
  from ImageRead_no_picture [OF assms(1,2) this] show ?thesis by simp
qed

theorem ImageRead_no_picture_fmt_out_witness:
  "p_dec (fst (ImageRead_decoder ex_host_no_picture ex_image ex_fmt_in [])) = Some ex_decoder_new \<and>
   fst (ImageRead_decode ex_host_no_picture ex_decoder_new ex_block ex_events_created) = None \<and>
   fst (snd (snd (ImageRead ex_host_no_picture ex_image ex_block ex_fmt_in ex_fmt_half [])))
     = ex_fmt_half"
proof -
  have a: "p_dec (ex_image\<lparr>p_dec := Some ex_decoder_new\<rparr>) = Some ex_decoder_new" by simp
  have b: "fst (ImageRead_decode ex_host_no_picture ex_decoder_new ex_block ex_events_created) = None"
    by (simp add: ex_no_picture_decode)
  show ?thesis
    using ImageRead_no_picture_fmt_out [OF ex_no_picture_setup a b, of ex_fmt_half] b
    by (simp add: ex_no_picture_setup)
qed

end
